theory Spec2Isabelle
  imports Complex_Main
begin

section \<open>The SSE stream reader of \<open>test_frontend_stream.mjs\<close>\<close>

text \<open>
  The read loop of \<open>testStream\<close>:
  \<^verbatim>\<open>
    let buffer = '';
    let eventCount = 0;
    while (true) {
      const { done, value } = await reader.read();
      if (done) break;
      buffer += decoder.decode(value, { stream: true });
      const lines = buffer.split('\n');
      buffer = lines.pop() || '';
      for (const line of lines) {
        if (!line.trim()) continue;
        if (!line.startsWith('data: ')) continue;
        const data = line.slice(6).trim();
        if (!data || data === '[DONE]') continue;
        try {
          const event = JSON.parse(data);
          eventCount++;
          if (event.type === 'response.output_text.delta') { console.log(..., event.delta); }
          else { console.log(..., event.type); }
        } catch (e) { console.error('JSON parse error:', ..., data.substring(0, 100)); }
      }
    }
  \<close>
  Text is a \<open>string\<close> (code units up to 255). \<open>JSON.parse\<close> and the streaming
  \<open>TextDecoder\<close> are library functions and enter as parameters: \<open>parse\<close> returns
  \<open>None\<close> where \<open>JSON.parse\<close> throws and the decoded value otherwise, and \<open>dec\<close> maps
  a decoder state and a chunk of bytes to the decoded text and the next decoder state.
\<close>

text \<open>The values of \<open>JSON.parse\<close> and \<open>response.json()\<close>. A number stands for the value of
  its double (JSON has no NaN; an overflowing literal, an infinity in JavaScript, is not
  represented). \<open>truthy\<close> is the test of \<open>if (v)\<close> and \<open>!v\<close>.\<close>

datatype json =
  JNull
| JBool bool
| JNumber rat
| JString string
| JArray "json list"
| JObject "(string \<times> json) list"

fun truthy :: "json \<Rightarrow> bool" where
  "truthy JNull = False"
| "truthy (JBool b) = b"
| "truthy (JNumber r) = (r \<noteq> 0)"
| "truthy (JString s) = (s \<noteq> [])"
| "truthy (JArray vs) = True"
| "truthy (JObject kvs) = True"

definition newline :: char where
  "newline = CHR 0x0A"

text \<open>\<open>String.prototype.split\<close> with a one-character separator: the result is never empty.\<close>

fun split_on :: "char \<Rightarrow> string \<Rightarrow> string list" where
  "split_on sep [] = [[]]"
| "split_on sep (c # cs) =
     (if c = sep then [] # split_on sep cs
      else (case split_on sep cs of
              [] \<Rightarrow> [[c]]
            | l # ls \<Rightarrow> (c # l) # ls))"

text \<open>The white space that \<open>String.prototype.trim\<close> removes, among the code units up to 255:
  TAB, LF, VT, FF, CR, SP and NBSP.\<close>

definition js_whitespace :: "char \<Rightarrow> bool" where
  "js_whitespace c = (c \<in> set [CHR 0x09, CHR 0x0A, CHR 0x0B, CHR 0x0C, CHR 0x0D, CHR 0x20, CHR 0xA0])"

definition trim :: "string \<Rightarrow> string" where
  "trim s = rev (dropWhile js_whitespace (rev (dropWhile js_whitespace s)))"

definition startsWith :: "string \<Rightarrow> string \<Rightarrow> bool" where
  "startsWith s p = (take (length p) s = p)"

record reader =
  buffer :: string
  eventCount :: nat
  events :: "json list"
  parse_errors :: "string list"

definition reader_init :: reader where
  "reader_init = \<lparr>buffer = [], eventCount = 0, events = [], parse_errors = []\<rparr>"

text \<open>The body of the \<open>for\<close> loop. \<open>events\<close> collects the events that the loop logs with
  \<open>console.log\<close>, in order, \<open>parse_errors\<close> what the \<open>catch\<close> branch logs. The \<open>try\<close>
  block covers the count and the reads of \<open>event.type\<close>: for the value \<open>null\<close> the
  count has been raised when \<open>event.type\<close> throws, and the \<open>catch\<close> branch logs it.\<close>

definition process_line :: "(string \<Rightarrow> json option) \<Rightarrow> string \<Rightarrow> reader \<Rightarrow> reader" where
  "process_line parse line st =
     (if trim line = [] then st
      else if \<not> startsWith line ''data: '' then st
      else let data = trim (drop 6 line) in
        if data = [] \<or> data = ''[DONE]'' then st
        else (case parse data of
                None \<Rightarrow> st\<lparr>parse_errors := parse_errors st @ [take 100 data]\<rparr>
              | Some event \<Rightarrow>
                  (let counted = st\<lparr>eventCount := eventCount st + 1\<rparr> in
                   if event = JNull
                   then counted\<lparr>parse_errors := parse_errors counted @ [take 100 data]\<rparr>
                   else counted\<lparr>events := events counted @ [event]\<rparr>)))"

definition process_lines :: "(string \<Rightarrow> json option) \<Rightarrow> string list \<Rightarrow> reader \<Rightarrow> reader" where
  "process_lines parse ls st = fold (process_line parse) ls st"

text \<open>One iteration of the \<open>while\<close> loop after the chunk has been decoded to \<open>text\<close>:
  append, split, keep the last segment (\<open>lines.pop() || ''\<close>), process the others.\<close>

definition feed_text :: "(string \<Rightarrow> json option) \<Rightarrow> string \<Rightarrow> reader \<Rightarrow> reader" where
  "feed_text parse text st =
     (let lines = split_on newline (buffer st @ text);
          rest = (case lines of [] \<Rightarrow> [] | _ \<Rightarrow> last lines)
      in process_lines parse (butlast lines) (st\<lparr>buffer := rest\<rparr>))"

text \<open>The \<open>while\<close> loop over the chunks that \<open>reader.read()\<close> delivers before \<open>done\<close>.\<close>

fun read_loop ::
  "('d \<Rightarrow> 'b list \<Rightarrow> string \<times> 'd) \<Rightarrow> (string \<Rightarrow> json option) \<Rightarrow> 'b list list \<Rightarrow> 'd \<times> reader \<Rightarrow> 'd \<times> reader" where
  "read_loop dec parse [] (d, st) = (d, st)"
| "read_loop dec parse (chunk # chunks) (d, st) =
     (case dec d chunk of
        (text, d') \<Rightarrow> read_loop dec parse chunks (d', feed_text parse text st))"

definition stream_events ::
  "('d \<Rightarrow> 'b list \<Rightarrow> string \<times> 'd) \<Rightarrow> 'd \<Rightarrow> (string \<Rightarrow> json option) \<Rightarrow> 'b list list \<Rightarrow> json list" where
  "stream_events dec d0 parse chunks = events (snd (read_loop dec parse chunks (d0, reader_init)))"

text \<open>The contract of \<open>decode(value, {stream: true})\<close>: no text for no bytes, and decoding
  a chunk in two pieces gives the same text and the same decoder state as decoding it whole.\<close>

definition streaming_decoder :: "('d \<Rightarrow> 'b list \<Rightarrow> string \<times> 'd) \<Rightarrow> bool" where
  "streaming_decoder dec \<longleftrightarrow>
     (\<forall>d. fst (dec d []) = []) \<and>
     (\<forall>d a b. dec d (a @ b) =
        (case dec d a of (s1, d1) \<Rightarrow> (case dec d1 b of (s2, d2) \<Rightarrow> (s1 @ s2, d2))))"

text \<open>A decoder for ASCII bytes, stateless: each byte is its code unit.\<close>

definition ascii_dec :: "unit \<Rightarrow> char list \<Rightarrow> string \<times> unit" where
  "ascii_dec d bs = (bs, d)"

text \<open>The payload that the guards of the loop body let through: \<open>None\<close> for a line that
  one of the three \<open>continue\<close> statements skips.\<close>

definition line_payload :: "string \<Rightarrow> string option" where
  "line_payload line =
     (if trim line = [] then None
      else if \<not> startsWith line ''data: '' then None
      else let data = trim (drop 6 line) in
        if data = [] \<or> data = ''[DONE]'' then None else Some data)"

text \<open>What the loop body logs with \<open>console.log\<close> for one line, and what it logs with
  \<open>console.error\<close>.\<close>

definition line_events :: "(string \<Rightarrow> json option) \<Rightarrow> string \<Rightarrow> json list" where
  "line_events parse line = events (process_line parse line reader_init)"

definition line_errors :: "(string \<Rightarrow> json option) \<Rightarrow> string \<Rightarrow> string list" where
  "line_errors parse line = parse_errors (process_line parse line reader_init)"

text \<open>The object \<open>{"type":"response.output_text.delta","delta":...}\<close>.\<close>

definition delta_event :: "string \<Rightarrow> json" where
  "delta_event fragment =
     JObject [(''type'', JString ''response.output_text.delta''), (''delta'', JString fragment)]"

text \<open>\<open>JSON.parse\<close> on the payloads of the examples below, as a table: three delta events
  and \<open>null\<close>. The examples use one more payload, \<open>{not json\<close>, on which \<open>JSON.parse\<close>
  throws.\<close>

definition JSON_parse_sample :: "string \<Rightarrow> json option" where
  \<open>JSON_parse_sample data =
     (if data = ''{"type":"response.output_text.delta","delta":"Hello"}''
        then Some (delta_event ''Hello'')
      else if data = ''{"type":"response.output_text.delta","delta":", "}''
        then Some (delta_event '', '')
      else if data = ''{"type":"response.output_text.delta","delta":"world"}''
        then Some (delta_event ''world'')
      else if data = ''null'' then Some JNull
      else None)\<close>

section \<open>The relay: \<open>DatabricksEndpointHandler.invoke_stream\<close>\<close>

text \<open>
  From the listings of the developer guide (\<open>server/auth/databricks_auth.py\<close>,
  \<open>server/auth/strategies.py\<close>, \<open>server/agents/handlers/databricks_endpoint.py\<close>).
  An exception is a value of \<open>error\<close>; the process environment and the request headers
  are inputs.
\<close>

datatype error =
  ValueError string
| ConnectError
| ConnectTimeout
| ReadTimeout
| ReadError

record os_environ =
  ENV :: "string option"
  DATABRICKS_HOST :: "string option"
  DATABRICKS_TOKEN :: "string option"

text \<open>\<open>os.getenv(key, default)\<close>\<close>

definition getenv :: "string option \<Rightarrow> string \<Rightarrow> string" where
  "getenv v dflt = (case v of None \<Rightarrow> dflt | Some s \<Rightarrow> s)"

definition is_local_development :: "os_environ \<Rightarrow> bool" where
  "is_local_development env = (getenv (ENV env) ''production'' = ''development'')"

definition get_databricks_host :: "os_environ \<Rightarrow> error + string" where
  "get_databricks_host env =
     (let host = getenv (DATABRICKS_HOST env) '''' in
      if host = [] then Inl (ValueError ''DATABRICKS_HOST must be set'')
      else if \<not> startsWith host ''https://'' then Inr (''https://'' @ host)
      else Inr host)"

text \<open>\<open>request.headers.get('x-forwarded-access-token')\<close>; an absent and an empty header are
  both falsy.\<close>

definition get_user_token_from_request :: "(string \<rightharpoonup> string) \<Rightarrow> error + string" where
  "get_user_token_from_request headers =
     (case headers ''x-forwarded-access-token'' of
        None \<Rightarrow> Inl (ValueError ''No X-Forwarded-Access-Token header found'')
      | Some token \<Rightarrow>
          if token = [] then Inl (ValueError ''No X-Forwarded-Access-Token header found'')
          else Inr token)"

definition get_dev_token :: "os_environ \<Rightarrow> error + string" where
  "get_dev_token env =
     (let token = getenv (DATABRICKS_TOKEN env) '''' in
      if token = [] then Inl (ValueError ''DATABRICKS_TOKEN must be set for development'')
      else Inr token)"

text \<open>\<open>HttpTokenAuth.get_credentials\<close>: the host first, then the token.\<close>

definition get_credentials :: "os_environ \<Rightarrow> (string \<rightharpoonup> string) \<Rightarrow> error + (string \<times> string)" where
  "get_credentials env headers =
     (case get_databricks_host env of
        Inl e \<Rightarrow> Inl e
      | Inr host \<Rightarrow>
          (case (if is_local_development env then get_dev_token env
                 else get_user_token_from_request headers) of
             Inl e \<Rightarrow> Inl e
           | Inr token \<Rightarrow> Inr (host, token)))"

text \<open>\<open>json.dumps\<close> of a string (\<open>ensure_ascii\<close>): the quote and the backslash are
  escaped, and so is every character outside the range from space to tilde.\<close>

definition backslash :: char where
  "backslash = CHR 0x5C"

definition hex_digit :: "nat \<Rightarrow> char" where
  "hex_digit n = ''0123456789abcdef'' ! (n mod 16)"

definition json_escape :: "char \<Rightarrow> string" where
  \<open>json_escape c =
     (if c = CHR ''"'' then [backslash, CHR ''"'']
      else if c = backslash then [backslash, backslash]
      else if c = CHR 0x0A then [backslash, CHR ''n'']
      else if c = CHR 0x0D then [backslash, CHR ''r'']
      else if c = CHR 0x09 then [backslash, CHR ''t'']
      else if c = CHR 0x0C then [backslash, CHR ''f'']
      else if c = CHR 0x08 then [backslash, CHR ''b'']
      else if (of_char c :: nat) < 32 \<or> 126 < (of_char c :: nat)
        then [backslash, CHR ''u'', CHR ''0'', CHR ''0'',
              hex_digit (of_char c div 16), hex_digit (of_char c)]
      else [c])\<close>

definition json_dumps_str :: "string \<Rightarrow> string" where
  \<open>json_dumps_str s = ''"'' @ concat (map json_escape s) @ ''"''\<close>

text \<open>The listings write the end of a frame as \<open>\\n\\n\<close> inside the f-string: a backslash
  and the letter n, twice.\<close>

definition frame_end :: string where
  "frame_end = [backslash, CHR ''n'', backslash, CHR ''n'']"

text \<open>
  \<^verbatim>\<open>yield f'data: {json.dumps({"type": "trace.client_request_id", "client_request_id": client_request_id})}\\n\\n'\<close>
\<close>

definition client_request_id_frame :: "string \<Rightarrow> string" where
  \<open>client_request_id_frame client_request_id =
     ''data: '' @ ''{"type": "trace.client_request_id", "client_request_id": ''
       @ json_dumps_str client_request_id @ ''}'' @ frame_end\<close>

text \<open>\<^verbatim>\<open>yield f'data: {line}\\n\\n'\<close>\<close>

definition data_frame :: "string \<Rightarrow> string" where
  "data_frame line = ''data: '' @ line @ frame_end"

text \<open>The request that the handler builds, and what the serving endpoint does with it:
  \<open>client.stream\<close> raises before there is a response, or there is a response with a
  status, the lines that \<open>aiter_lines\<close> delivers, and the way the body ends (\<open>None\<close>: end of
  the stream; \<open>Some e\<close>: the read raises \<open>e\<close>, a timeout of the 300 seconds included).\<close>

record http_request =
  url :: string
  authorization :: string
  input :: "(string \<times> string) list"
  stream :: bool

datatype upstream =
  ConnectFails error
| Responds nat "string list" "error option"

definition upstream_lines :: "upstream \<Rightarrow> string list" where
  "upstream_lines u = (case u of ConnectFails e \<Rightarrow> [] | Responds status ls fin \<Rightarrow> ls)"

definition upstream_failure :: "upstream \<Rightarrow> error option" where
  "upstream_failure u = (case u of ConnectFails e \<Rightarrow> Some e | Responds status ls fin \<Rightarrow> fin)"

text \<open>\<open>f'{...}'\<close> of \<open>agent_config.get('endpoint_name')\<close>, which is \<open>None\<close> for a missing key.\<close>

definition format_opt :: "string option \<Rightarrow> string" where
  "format_opt v = (case v of None \<Rightarrow> ''None'' | Some s \<Rightarrow> s)"

text \<open>
  \<^verbatim>\<open>
    url = f'{host}/serving-endpoints/{self.endpoint_name}/invocations'
    headers = {'Authorization': f'Bearer {token}'}
    payload = {'input': messages, 'stream': True}
  \<close>
\<close>

definition upstream_request ::
  "string \<Rightarrow> string \<Rightarrow> string option \<Rightarrow> (string \<times> string) list \<Rightarrow> http_request" where
  "upstream_request host token endpoint_name messages =
     \<lparr>url = host @ ''/serving-endpoints/'' @ format_opt endpoint_name @ ''/invocations'',
      authorization = ''Bearer '' @ token,
      input = messages,
      stream = True\<rparr>"

text \<open>
  \<^verbatim>\<open>
    async def invoke_stream(self, messages, client_request_id, request):
        host, token = self.auth_strategy.get_credentials(request)
        ...
        yield f'data: {json.dumps({"type": "trace.client_request_id", ...})}\\n\\n'
        async with httpx.AsyncClient(timeout=300.0) as client:
            async with client.stream('POST', url, json=payload, headers=headers) as response:
                async for line in response.aiter_lines():
                    yield f'data: {line}\\n\\n'
  \<close>
  The async generator, run to its end: the strings it yields, in order, and how it
  ends (\<open>None\<close>: it returns; \<open>Some e\<close>: it raises \<open>e\<close> to the caller that iterates it).
  The credentials are fetched before the first \<open>yield\<close>, the upstream call is opened after
  it. The listing has no \<open>try\<close> and does not look at the status of the response.
\<close>

definition invoke_stream ::
  "os_environ \<Rightarrow> (http_request \<Rightarrow> upstream) \<Rightarrow> string option \<Rightarrow>
   (string \<times> string) list \<Rightarrow> string \<Rightarrow> (string \<rightharpoonup> string) \<Rightarrow> string list \<times> error option" where
  "invoke_stream env endpoint endpoint_name messages client_request_id headers =
     (case get_credentials env headers of
        Inl e \<Rightarrow> ([], Some e)
      | Inr (host, token) \<Rightarrow>
          (let first = client_request_id_frame client_request_id in
           case endpoint (upstream_request host token endpoint_name messages) of
             ConnectFails e \<Rightarrow> ([first], Some e)
           | Responds status ls fin \<Rightarrow> (first # map data_frame ls, fin)))"

section \<open>Navigation state: \<open>NavigationContext.tsx\<close>\<close>

record Chat =
  chat_id :: string
  title :: string
  lastMessage :: string
  timestamp :: string
  preview :: string

datatype TabType = tab_home | tab_chat | tab_dashboard | tab_tools | tab_about

definition tab_path :: "TabType \<Rightarrow> string" where
  "tab_path tab = (case tab of tab_home \<Rightarrow> ''home'' | tab_chat \<Rightarrow> ''chat''
                   | tab_dashboard \<Rightarrow> ''dashboard'' | tab_tools \<Rightarrow> ''tools'' | tab_about \<Rightarrow> ''about'')"

text \<open>The state of \<open>NavigationProvider\<close> (its \<open>useState\<close> cells), and what its handlers do
  to the world: the routes pushed, the notices shown by \<open>toast.info\<close> (message and
  description), the lines of \<open>devLog\<close>.\<close>

record navigation =
  currentChatId :: "string option"
  chats :: "Chat list"
  isStreaming :: bool
  isSidebarOpen :: bool
  isSidebarCollapsed :: bool
  selectedAgentId :: string
  isEditMode :: bool
  pushed :: "string list"
  toasts :: "(string \<times> string) list"
  console :: "string list"

definition navigateTo :: "TabType \<Rightarrow> navigation \<Rightarrow> navigation" where
  "navigateTo tab nav = nav\<lparr>pushed := pushed nav @ [''/'' @ tab_path tab]\<rparr>"

text \<open>\<open>devLog\<close> logs unless \<open>NODE_ENV\<close> is \<open>production\<close>.\<close>

definition devLog :: "string \<Rightarrow> string \<Rightarrow> navigation \<Rightarrow> navigation" where
  "devLog node_env msg nav =
     (if node_env \<noteq> ''production'' then nav\<lparr>console := console nav @ [msg]\<rparr> else nav)"

definition handleNewChat :: "string \<Rightarrow> navigation \<Rightarrow> navigation" where
  "handleNewChat node_env nav =
     (if isStreaming nav then
        nav\<lparr>toasts := toasts nav @
          [(''Please wait for the current response to complete'',
            ''You can start a new chat once the response finishes'')]\<rparr>
      else devLog node_env ''Starting new chat session''
             (navigateTo tab_chat (nav\<lparr>currentChatId := None\<rparr>)))"

definition handleChatSelect :: "nat \<Rightarrow> string \<Rightarrow> navigation \<Rightarrow> navigation" where
  "handleChatSelect innerWidth chatId nav =
     (if isStreaming nav then
        nav\<lparr>toasts := toasts nav @
          [(''Please wait for the current response to complete'',
            ''You can switch chats once the response finishes'')]\<rparr>
      else let nav' = navigateTo tab_chat (nav\<lparr>currentChatId := Some chatId\<rparr>) in
        if innerWidth < 1024 then nav'\<lparr>isSidebarOpen := False\<rparr> else nav')"

section \<open>The configuration cache: \<open>config.ts\<close>\<close>

text \<open>
  \<^verbatim>\<open>
    let cachedConfig: AppConfig | null = null;

    export async function loadConfig(): Promise<AppConfig> {
      if (cachedConfig) { return cachedConfig; }
      try {
        const response = await fetch("/app_config.json");
        if (response.ok) {
          const config = await response.json();
          cachedConfig = config;
          return config;
        } else {
          cachedConfig = DEFAULT_CONFIG;
          return DEFAULT_CONFIG;
        }
      } catch (error) {
        cachedConfig = DEFAULT_CONFIG;
        return DEFAULT_CONFIG;
      }
    }
    export function getConfig(): AppConfig {
      if (!cachedConfig) { throw new Error("Config not loaded yet. Call loadConfig() first."); }
      return cachedConfig;
    }
    export function resetConfig(): void { cachedConfig = null; }
  \<close>
  The interface \<open>AppConfig\<close> is erased at run time: \<open>response.json()\<close> returns whatever
  JSON the file holds, and the code caches it unchecked and tests it for truthiness.
\<close>

type_synonym AppConfig = json

definition DEFAULT_CONFIG :: AppConfig where
  "DEFAULT_CONFIG =
     JObject
       [(''endpoints'',
         JArray
           [JObject [(''displayName'', JString ''Sonnet 4''),
                     (''endpointName'', JString ''databricks-claude-sonnet-4''),
                     (''type'', JString ''openai-chat'')],
            JObject [(''displayName'', JString ''mas_mehdi_genai_demo''),
                     (''endpointName'', JString ''mas-367ff95f-endpoint''),
                     (''type'', JString ''databricks-agent'')]]),
        (''apiBaseUrl'', JString ''http://localhost:8001/api'')]"

text \<open>What \<open>fetch("/app_config.json")\<close> does when it is called: it throws, or there is a
  response with its \<open>ok\<close> flag and the value of \<open>response.json()\<close> (\<open>None\<close> where that
  throws).\<close>

datatype fetch_result =
  FetchThrows
| FetchResponse bool "json option"

text \<open>The module: the variable \<open>cachedConfig\<close> (\<open>JNull\<close> is \<open>null\<close>), and the number of calls
  of \<open>fetch\<close> so far.\<close>

record config_module =
  cachedConfig :: json
  fetches :: nat

definition config_module_init :: config_module where
  "config_module_init = \<lparr>cachedConfig = JNull, fetches = 0\<rparr>"

text \<open>A call of \<open>loadConfig\<close> runs in two steps. The first runs when it is called, up to
  the first \<open>await\<close>: with a truthy cache it returns the cached value (\<open>Some\<close>), otherwise it
  calls \<open>fetch\<close> and waits (\<open>None\<close>). The second runs when the fetch and \<open>response.json()\<close>
  have settled: it assigns \<open>cachedConfig\<close> and returns. Other calls can run between the
  two steps.\<close>

definition loadConfig_begin :: "config_module \<Rightarrow> AppConfig option \<times> config_module" where
  "loadConfig_begin m =
     (if truthy (cachedConfig m) then (Some (cachedConfig m), m)
      else (None, m\<lparr>fetches := fetches m + 1\<rparr>))"

definition loadConfig_finish :: "fetch_result \<Rightarrow> config_module \<Rightarrow> AppConfig \<times> config_module" where
  "loadConfig_finish fetched m =
     (case fetched of
        FetchThrows \<Rightarrow> (DEFAULT_CONFIG, m\<lparr>cachedConfig := DEFAULT_CONFIG\<rparr>)
      | FetchResponse ok body \<Rightarrow>
          if ok then
            (case body of
               Some config \<Rightarrow> (config, m\<lparr>cachedConfig := config\<rparr>)
             | None \<Rightarrow> (DEFAULT_CONFIG, m\<lparr>cachedConfig := DEFAULT_CONFIG\<rparr>))
          else (DEFAULT_CONFIG, m\<lparr>cachedConfig := DEFAULT_CONFIG\<rparr>))"

text \<open>A call of \<open>loadConfig\<close> with nothing else running between its two steps.\<close>

definition loadConfig :: "fetch_result \<Rightarrow> config_module \<Rightarrow> AppConfig \<times> config_module" where
  "loadConfig fetched m =
     (case loadConfig_begin m of
        (Some cached, m') \<Rightarrow> (cached, m')
      | (None, m') \<Rightarrow> loadConfig_finish fetched m')"

definition getConfig :: "config_module \<Rightarrow> string + AppConfig" where
  "getConfig m =
     (if \<not> truthy (cachedConfig m) then Inl ''Config not loaded yet. Call loadConfig() first.''
      else Inr (cachedConfig m))"

definition resetConfig :: "config_module \<Rightarrow> config_module" where
  "resetConfig m = m\<lparr>cachedConfig := JNull\<rparr>"

text \<open>A history of what happens to the module, oldest first: a whole call of \<open>loadConfig\<close>
  (\<open>Load\<close>), the first step of a call (\<open>Begin\<close>), the second step of a call that is waiting
  (\<open>Finish\<close>), \<open>getConfig\<close> and \<open>resetConfig\<close>. \<open>Load\<close> and \<open>Finish\<close> come with what the fetch
  of that call does.\<close>

datatype config_call = Load fetch_result | Begin | Finish fetch_result | Get | Reset

fun config_call_step :: "config_call \<Rightarrow> config_module \<Rightarrow> config_module" where
  "config_call_step (Load fetched) m = snd (loadConfig fetched m)"
| "config_call_step Begin m = snd (loadConfig_begin m)"
| "config_call_step (Finish fetched) m = snd (loadConfig_finish fetched m)"
| "config_call_step Get m = m"
| "config_call_step Reset m = resetConfig m"

definition config_run :: "config_call list \<Rightarrow> config_module \<Rightarrow> config_module" where
  "config_run calls m = fold config_call_step calls m"

text \<open>The calls that neither reset the cache nor finish a \<open>loadConfig\<close> that was waiting for
  its fetch.\<close>

fun undisturbing :: "config_call \<Rightarrow> bool" where
  "undisturbing Reset = False"
| "undisturbing (Finish fetched) = False"
| "undisturbing call = True"

text \<open>The value a \<open>loadConfig\<close> resolves to when it has fetched.\<close>

definition load_value :: "fetch_result \<Rightarrow> AppConfig" where
  "load_value fetched = fst (loadConfig_finish fetched config_module_init)"

text \<open>Whether, at the end of a history, the last \<open>loadConfig\<close> to assign the cache since the
  last \<open>resetConfig\<close> resolved to a truthy value; \<open>b\<close> says whether the cache is truthy at
  the start.\<close>

fun loaded_after :: "bool \<Rightarrow> config_call list \<Rightarrow> bool" where
  "loaded_after b [] = b"
| "loaded_after b (Load fetched # calls) = loaded_after (b \<or> truthy (load_value fetched)) calls"
| "loaded_after b (Begin # calls) = loaded_after b calls"
| "loaded_after b (Finish fetched # calls) = loaded_after (truthy (load_value fetched)) calls"
| "loaded_after b (Get # calls) = loaded_after b calls"
| "loaded_after b (Reset # calls) = loaded_after False calls"

section \<open>The event-folding state machine of the stream consumer\<close>

text \<open>
  The folding code (\<open>ChatView.tsx\<close>) is not among the sources; the developer guide has only
  its summary (text deltas are appended, a function call is added, a function call output
  is merged with the matching call, the trace summary is stored). The definitions of this
  section follow sections 3 and 4.3 of the specification. A pair of state and input for
  which section 4.3 lists no transition leaves the state as it is.
\<close>

text \<open>Modelled from the spec: the states of a stream of section 4.3 (the state type of
  the missing \<open>ChatView.tsx\<close>).\<close>

datatype stream_status = Idle | AwaitingId | Streaming | Completed | Aborted

text \<open>Modelled from the spec: \<open>ToolCallRecord\<close> of the missing \<open>ChatView.tsx\<close>, keyed by
  the call identifier, with the fields of the two tool frames of section 6.\<close>

record ToolCallRecord =
  callId :: string
  toolName :: string
  arguments :: string
  callOutput :: "string option"

text \<open>Modelled from the spec: \<open>AccumulatedMessage\<close> of section 3 (missing \<open>ChatView.tsx\<close>).\<close>

record AccumulatedMessage =
  textContent :: string
  toolCalls :: "ToolCallRecord list"
  traceMetadata :: "string option"

text \<open>Modelled from the spec: the state of one stream in the missing \<open>ChatView.tsx\<close>: its
  status, the \<open>requestId\<close> of \<open>PendingRequest\<close>, and the message being built.\<close>

record stream_state =
  status :: stream_status
  requestId :: "string option"
  message :: AccumulatedMessage

text \<open>Modelled from the spec: a \<open>StreamFrame\<close> classified by its event type, after the wire
  table of section 6 (the classification is in the missing \<open>ChatView.tsx\<close>). Section 4.3
  gives no transition for the error frame, which is left out.\<close>

datatype StreamFrame =
  ClientRequestId string
| TextDelta string
| FunctionCall string string string
| FunctionCallOutput string string
| TraceSummary string
| ResponseCompleted
| DoneSentinel
| Unrecognized string

text \<open>Modelled from the spec: what the read loop of the missing \<open>ChatView.tsx\<close> hands to the
  state machine: the first byte, a frame, the end of the stream, the trigger of the
  cancellation token, a read error.\<close>

datatype stream_input = FirstByte | Frame StreamFrame | StreamEnd | Cancel | ReadFailure

text \<open>Modelled from the spec: the upsert of the missing \<open>ChatView.tsx\<close> (section 3: a later
  frame with the same identifier updates the existing record rather than appending a new
  one). The record keeps its place and its output.\<close>

definition upsert_call :: "string \<Rightarrow> string \<Rightarrow> string \<Rightarrow> ToolCallRecord list \<Rightarrow> ToolCallRecord list" where
  "upsert_call cid nm args tcs =
     (if cid \<in> set (map callId tcs)
      then map (\<lambda>r. if callId r = cid then r\<lparr>toolName := nm, arguments := args\<rparr> else r) tcs
      else tcs @ [\<lparr>callId = cid, toolName = nm, arguments = args, callOutput = None\<rparr>])"

text \<open>Modelled from the spec: the merge of an output frame in the missing \<open>ChatView.tsx\<close>
  (section 4.3: attach the output to the record with the same call id; with no such
  record, a new record with empty arguments).\<close>

definition attach_output :: "string \<Rightarrow> string \<Rightarrow> ToolCallRecord list \<Rightarrow> ToolCallRecord list" where
  "attach_output cid out tcs =
     (if cid \<in> set (map callId tcs)
      then map (\<lambda>r. if callId r = cid then r\<lparr>callOutput := Some out\<rparr> else r) tcs
      else tcs @ [\<lparr>callId = cid, toolName = [], arguments = [], callOutput = Some out\<rparr>])"

text \<open>Modelled from the spec: the effect of one frame on the message while the stream is
  in the state Streaming (section 4.3; missing \<open>ChatView.tsx\<close>). The trace metadata is set at
  most once; frames of unrecognized types are ignored.\<close>

fun fold_frame :: "StreamFrame \<Rightarrow> AccumulatedMessage \<Rightarrow> AccumulatedMessage" where
  "fold_frame (TextDelta text) m = m\<lparr>textContent := textContent m @ text\<rparr>"
| "fold_frame (FunctionCall cid nm args) m = m\<lparr>toolCalls := upsert_call cid nm args (toolCalls m)\<rparr>"
| "fold_frame (FunctionCallOutput cid out) m = m\<lparr>toolCalls := attach_output cid out (toolCalls m)\<rparr>"
| "fold_frame (TraceSummary meta) m =
     (case traceMetadata m of None \<Rightarrow> m\<lparr>traceMetadata := Some meta\<rparr> | Some old \<Rightarrow> m)"
| "fold_frame (ClientRequestId r) m = m"
| "fold_frame ResponseCompleted m = m"
| "fold_frame DoneSentinel m = m"
| "fold_frame (Unrecognized t) m = m"

text \<open>Modelled from the spec: the frames that end a stream (section 4.3: the explicit
  completion event or the done-sentinel; missing \<open>ChatView.tsx\<close>).\<close>

fun terminal_frame :: "StreamFrame \<Rightarrow> bool" where
  "terminal_frame ResponseCompleted = True"
| "terminal_frame DoneSentinel = True"
| "terminal_frame f = False"

text \<open>Modelled from the spec: one transition of the state machine of section 4.3 (missing
  \<open>ChatView.tsx\<close>). Completed and Aborted are terminal: every input is a no-op there.\<close>

definition fold_step :: "stream_input \<Rightarrow> stream_state \<Rightarrow> stream_state" where
  "fold_step inp st =
     (case status st of
        Idle \<Rightarrow> (case inp of FirstByte \<Rightarrow> st\<lparr>status := AwaitingId\<rparr> | _ \<Rightarrow> st)
      | AwaitingId \<Rightarrow>
          (case inp of
             Frame (ClientRequestId r) \<Rightarrow> st\<lparr>status := Streaming, requestId := Some r\<rparr>
           | _ \<Rightarrow> st)
      | Streaming \<Rightarrow>
          (case inp of
             FirstByte \<Rightarrow> st
           | Frame f \<Rightarrow>
               if terminal_frame f then st\<lparr>status := Completed\<rparr>
               else st\<lparr>message := fold_frame f (message st)\<rparr>
           | StreamEnd \<Rightarrow> st\<lparr>status := Completed\<rparr>
           | Cancel \<Rightarrow> st\<lparr>status := Aborted\<rparr>
           | ReadFailure \<Rightarrow> st\<lparr>status := Aborted\<rparr>)
      | Completed \<Rightarrow> st
      | Aborted \<Rightarrow> st)"

text \<open>Modelled from the spec: the inputs of one stream folded in arrival order (section 5;
  missing \<open>ChatView.tsx\<close>).\<close>

definition fold_inputs :: "stream_input list \<Rightarrow> stream_state \<Rightarrow> stream_state" where
  "fold_inputs inps st = fold fold_step inps st"

text \<open>Modelled from the spec: the state of a stream before its first byte, with an empty
  message (missing \<open>ChatView.tsx\<close>).\<close>

definition stream_init :: stream_state where
  "stream_init =
     \<lparr>status = Idle, requestId = None,
      message = \<lparr>textContent = [], toolCalls = [], traceMetadata = None\<rparr>\<rparr>"

text \<open>Modelled from the spec: the inputs that neither end the stream nor carry the call
  identifier \<open>cid\<close> (used to say "followed later by"; missing \<open>ChatView.tsx\<close>).\<close>

fun unrelated_input :: "string \<Rightarrow> stream_input \<Rightarrow> bool" where
  "unrelated_input cid (Frame (FunctionCall c nm args)) = (c \<noteq> cid)"
| "unrelated_input cid (Frame (FunctionCallOutput c out)) = (c \<noteq> cid)"
| "unrelated_input cid (Frame f) = (\<not> terminal_frame f)"
| "unrelated_input cid FirstByte = True"
| "unrelated_input cid inp = False"

section \<open>Proofs: the stream reader\<close>

subsection \<open>Splitting and the residual buffer\<close>

lemma split_on_nonempty: "split_on sep s \<noteq> []"
  by (induction s) (auto split: list.splits)

lemma split_on_append:
  "split_on sep (a @ b) =
     butlast (split_on sep a) @ ((last (split_on sep a) @ hd (split_on sep b)) # tl (split_on sep b))"
proof (induction a)
  case Nil
  have "split_on sep b \<noteq> []" by (rule split_on_nonempty)
  then show ?case by (cases "split_on sep b") simp_all
next
  case (Cons c cs)
  obtain l ls where s: "split_on sep cs = l # ls"
    using split_on_nonempty [of sep cs] by (cases "split_on sep cs") auto
  show ?case
  proof (cases "c = sep")
    case True
    with Cons s show ?thesis by simp
  next
    case False
    with Cons s show ?thesis by (cases ls) simp_all
  qed
qed

lemma last_split_on_no_sep: "sep \<notin> set (last (split_on sep s))"
proof (induction s)
  case Nil
  show ?case by simp
next
  case (Cons c cs)
  obtain l ls where s: "split_on sep cs = l # ls"
    using split_on_nonempty [of sep cs] by (cases "split_on sep cs") auto
  with Cons show ?case by (cases ls) auto
qed

lemma split_on_no_sep: "sep \<notin> set r \<Longrightarrow> split_on sep r = [r]"
  by (induction r) auto

lemma process_lines_append:
  "process_lines parse (xs @ ys) st = process_lines parse ys (process_lines parse xs st)"
  by (simp add: process_lines_def)

lemma buffer_process_line [simp]: "buffer (process_line parse l st) = buffer st"
  by (simp add: process_line_def Let_def split: option.splits)

lemma events_buffer_update [simp]: "events (st\<lparr>buffer := b\<rparr>) = events st"
  by simp

lemma buffer_process_lines [simp]: "buffer (process_lines parse ls st) = buffer st"
  unfolding process_lines_def by (induction ls arbitrary: st) simp_all

lemma process_line_buffer_update:
  "process_line parse l (st\<lparr>buffer := b\<rparr>) = (process_line parse l st)\<lparr>buffer := b\<rparr>"
  by (simp add: process_line_def Let_def split: option.splits)

lemma process_lines_buffer_update:
  "process_lines parse ls (st\<lparr>buffer := b\<rparr>) = (process_lines parse ls st)\<lparr>buffer := b\<rparr>"
  unfolding process_lines_def
  by (induction ls arbitrary: st) (simp_all add: process_line_buffer_update)

lemma feed_text_eq:
  "feed_text parse text st =
     (process_lines parse (butlast (split_on newline (buffer st @ text))) st)
       \<lparr>buffer := last (split_on newline (buffer st @ text))\<rparr>"
proof -
  obtain l ls where s: "split_on newline (buffer st @ text) = l # ls"
    using split_on_nonempty [of newline "buffer st @ text"]
    by (cases "split_on newline (buffer st @ text)") auto
  show ?thesis
    unfolding feed_text_def Let_def s
    by (simp only: list.case process_lines_buffer_update)
qed

lemma feed_text_append:
  "feed_text parse b (feed_text parse a st) = feed_text parse (a @ b) st"
proof -
  let ?A = "split_on newline (buffer st @ a)"
  let ?B = "split_on newline b"
  have r: "newline \<notin> set (last ?A)" by (rule last_split_on_no_sep)
  have one: "split_on newline (last ?A @ b) = (last ?A @ hd ?B) # tl ?B"
    using split_on_append [of newline "last ?A" b] split_on_no_sep [OF r] by simp
  have whole: "split_on newline (buffer st @ a @ b) = butlast ?A @ ((last ?A @ hd ?B) # tl ?B)"
    using split_on_append [of newline "buffer st @ a" b] by simp
  have bl: "butlast (split_on newline (buffer st @ a @ b))
            = butlast ?A @ butlast ((last ?A @ hd ?B) # tl ?B)"
    unfolding whole by (simp add: butlast_append)
  have la: "last (split_on newline (buffer st @ a @ b)) = last ((last ?A @ hd ?B) # tl ?B)"
    unfolding whole by simp
  show ?thesis
    by (simp add: feed_text_eq one bl la process_lines_append process_lines_buffer_update
        del: butlast.simps last.simps)
qed

lemma feed_text_empty: "newline \<notin> set (buffer st) \<Longrightarrow> feed_text parse [] st = st"
  by (simp add: feed_text_eq split_on_no_sep process_lines_def)

lemma buffer_feed_text_no_newline: "newline \<notin> set (buffer (feed_text parse text st))"
  by (simp add: feed_text_eq last_split_on_no_sep)


lemma read_loop_concat:
  assumes dec: "streaming_decoder dec"
  shows "newline \<notin> set (buffer st) \<Longrightarrow>
    snd (read_loop dec parse chunks (d, st)) = snd (read_loop dec parse [concat chunks] (d, st))"
proof (induction chunks arbitrary: d st)
  case Nil
  from dec have "fst (dec d []) = []" by (simp add: streaming_decoder_def)
  with Nil show ?case by (cases "dec d []") (simp add: feed_text_empty)
next
  case (Cons c cs)
  obtain s1 d1 where a: "dec d c = (s1, d1)" by (cases "dec d c")
  obtain s2 d2 where b: "dec d1 (concat cs) = (s2, d2)" by (cases "dec d1 (concat cs)")
  from dec have "dec d (c @ concat cs) =
     (case dec d c of (s1, d1) \<Rightarrow> (case dec d1 (concat cs) of (s2, d2) \<Rightarrow> (s1 @ s2, d2)))"
    unfolding streaming_decoder_def by blast
  with a b have ab: "dec d (c @ concat cs) = (s1 @ s2, d2)" by simp
  have "snd (read_loop dec parse cs (d1, feed_text parse s1 st))
      = snd (read_loop dec parse [concat cs] (d1, feed_text parse s1 st))"
    by (rule Cons.IH) (rule buffer_feed_text_no_newline)
  with a b ab show ?case by (simp add: feed_text_append)
qed

lemma read_loop_single:
  "snd (read_loop dec parse [bytes] (d, st)) = feed_text parse (fst (dec d bytes)) st"
  by (cases "dec d bytes") simp

lemma streaming_decoder_ascii: "streaming_decoder ascii_dec"
  by (simp add: streaming_decoder_def ascii_dec_def)

lemma buffer_reader_init: "newline \<notin> set (buffer reader_init)"
  by (simp add: reader_init_def)

text \<open>
  Claim C2. However the bytes of a stream are cut into chunks, the reader decodes the same
  events, in the same order, as it does when the whole stream arrives as one chunk. The
  statement holds for every byte sequence, the serializations of valid frame sequences
  among them, and for every decoder that keeps the contract of the streaming
  \<open>TextDecoder\<close>.
\<close>

theorem chunk_reassembly:
  assumes "streaming_decoder dec" and "concat chunks = bytes"
  shows "stream_events dec d0 parse chunks = stream_events dec d0 parse [bytes]"
proof -
  from read_loop_concat [OF assms(1) buffer_reader_init, of parse chunks d0] assms(2)
  show ?thesis by (simp add: stream_events_def)
qed

theorem chunk_reassembly_witness:
  \<open>streaming_decoder ascii_dec \<and>
   concat [''data: {"type":"respon'',
           ''se.output_text.delta","delta":"Hello"}\<newline>\<newline>data: {"type":"response.output_text.delta","delta":", "}\<newline>'',
           ''\<newline>data: {"type":"response.output_text.delta","delta":"world"}\<newline>\<newline>'']
     = ''data: {"type":"response.output_text.delta","delta":"Hello"}\<newline>\<newline>data: {"type":"response.output_text.delta","delta":", "}\<newline>\<newline>data: {"type":"response.output_text.delta","delta":"world"}\<newline>\<newline>'' \<and>
   stream_events ascii_dec () JSON_parse_sample
     [''data: {"type":"respon'',
      ''se.output_text.delta","delta":"Hello"}\<newline>\<newline>data: {"type":"response.output_text.delta","delta":", "}\<newline>'',
      ''\<newline>data: {"type":"response.output_text.delta","delta":"world"}\<newline>\<newline>'']
     = stream_events ascii_dec () JSON_parse_sample
         [''data: {"type":"response.output_text.delta","delta":"Hello"}\<newline>\<newline>data: {"type":"response.output_text.delta","delta":", "}\<newline>\<newline>data: {"type":"response.output_text.delta","delta":"world"}\<newline>\<newline>''] \<and>
   stream_events ascii_dec () JSON_parse_sample
     [''data: {"type":"respon'',
      ''se.output_text.delta","delta":"Hello"}\<newline>\<newline>data: {"type":"response.output_text.delta","delta":", "}\<newline>'',
      ''\<newline>data: {"type":"response.output_text.delta","delta":"world"}\<newline>\<newline>'']
     = [delta_event ''Hello'',
        delta_event '', '',
        delta_event ''world'']\<close>
proof (intro conjI)
  show dec: "streaming_decoder ascii_dec" by (rule streaming_decoder_ascii)
  show cat: \<open>concat [''data: {"type":"respon'',
           ''se.output_text.delta","delta":"Hello"}\<newline>\<newline>data: {"type":"response.output_text.delta","delta":", "}\<newline>'',
           ''\<newline>data: {"type":"response.output_text.delta","delta":"world"}\<newline>\<newline>'']
     = ''data: {"type":"response.output_text.delta","delta":"Hello"}\<newline>\<newline>data: {"type":"response.output_text.delta","delta":", "}\<newline>\<newline>data: {"type":"response.output_text.delta","delta":"world"}\<newline>\<newline>''\<close>
    by simp
  show \<open>stream_events ascii_dec () JSON_parse_sample
     [''data: {"type":"respon'',
      ''se.output_text.delta","delta":"Hello"}\<newline>\<newline>data: {"type":"response.output_text.delta","delta":", "}\<newline>'',
      ''\<newline>data: {"type":"response.output_text.delta","delta":"world"}\<newline>\<newline>'']
     = stream_events ascii_dec () JSON_parse_sample
         [''data: {"type":"response.output_text.delta","delta":"Hello"}\<newline>\<newline>data: {"type":"response.output_text.delta","delta":", "}\<newline>\<newline>data: {"type":"response.output_text.delta","delta":"world"}\<newline>\<newline>'']\<close>
    by (rule chunk_reassembly [OF dec cat])
  show \<open>stream_events ascii_dec () JSON_parse_sample
     [''data: {"type":"respon'',
      ''se.output_text.delta","delta":"Hello"}\<newline>\<newline>data: {"type":"response.output_text.delta","delta":", "}\<newline>'',
      ''\<newline>data: {"type":"response.output_text.delta","delta":"world"}\<newline>\<newline>'']
     = [delta_event ''Hello'',
        delta_event '', '',
        delta_event ''world'']\<close>
    by code_simp
qed

lemma process_line_payload:
  "process_line parse line st =
     (case line_payload line of
        None \<Rightarrow> st
      | Some data \<Rightarrow>
          (case parse data of
             None \<Rightarrow> st\<lparr>parse_errors := parse_errors st @ [take 100 data]\<rparr>
           | Some event \<Rightarrow>
               if event = JNull
               then st\<lparr>eventCount := eventCount st + 1,
                      parse_errors := parse_errors st @ [take 100 data]\<rparr>
               else st\<lparr>eventCount := eventCount st + 1, events := events st @ [event]\<rparr>))"
  by (simp add: process_line_def line_payload_def Let_def split: option.splits)

lemma split_on_line:
  "sep \<notin> set l \<Longrightarrow> split_on sep (l @ sep # rest) = l # split_on sep rest"
proof (induction l)
  case Nil
  show ?case by simp
next
  case (Cons c cs)
  then show ?case by auto
qed

text \<open>
  Claim C3, as amended. The claim says that a \<open>data:\<close> line with the payload \<open>[DONE]\<close>
  yields a terminal marker and that no frame of a later line is yielded. The loop has
  \<open>if (!data || data === '[DONE]') continue\<close>: the line is skipped like a line with an
  empty payload, nothing is recorded for it, and the lines after it are processed as if
  it were not there. The loop ends only when the reader reports \<open>done\<close>.
\<close>

theorem done_sentinel_skipped:
  assumes "startsWith line ''data: ''" and "trim (drop 6 line) = ''[DONE]''"
  shows "process_line parse line st = st \<and>
         process_lines parse (before @ line # after) st = process_lines parse (before @ after) st"
proof -
  have skip: "process_line parse line s = s" for s :: reader
    using assms by (simp add: process_line_def)
  then show ?thesis by (simp add: process_lines_def)
qed

theorem done_sentinel_skipped_witness:
  \<open>startsWith ''data: [DONE]'' ''data: '' \<and> trim (drop 6 ''data: [DONE]'') = ''[DONE]'' \<and>
   process_line JSON_parse_sample ''data: [DONE]'' reader_init = reader_init \<and>
   process_lines JSON_parse_sample
     ([''data: {"type":"response.output_text.delta","delta":"Hello"}''] @ ''data: [DONE]'' #
      [''data: {"type":"response.output_text.delta","delta":"world"}'']) reader_init
   = process_lines JSON_parse_sample
     ([''data: {"type":"response.output_text.delta","delta":"Hello"}''] @
      [''data: {"type":"response.output_text.delta","delta":"world"}'']) reader_init \<and>
   events (process_lines JSON_parse_sample
     ([''data: {"type":"response.output_text.delta","delta":"Hello"}''] @ ''data: [DONE]'' #
      [''data: {"type":"response.output_text.delta","delta":"world"}'']) reader_init)
   = [delta_event ''Hello'',
      delta_event ''world'']\<close>
proof -
  have a: "startsWith ''data: [DONE]'' ''data: ''" by (simp add: startsWith_def)
  have b: "trim (drop 6 ''data: [DONE]'') = ''[DONE]''" by code_simp
  have c: \<open>events (process_lines JSON_parse_sample
     ([''data: {"type":"response.output_text.delta","delta":"Hello"}''] @ ''data: [DONE]'' #
      [''data: {"type":"response.output_text.delta","delta":"world"}'']) reader_init)
   = [delta_event ''Hello'',
      delta_event ''world'']\<close>
    by code_simp
  from done_sentinel_skipped [OF a b, of JSON_parse_sample reader_init
      \<open>[''data: {"type":"response.output_text.delta","delta":"Hello"}'']\<close>
      \<open>[''data: {"type":"response.output_text.delta","delta":"world"}'']\<close>] a b c
  show ?thesis by blast
qed

text \<open>
  Claim C3 as stated fails: the event of a line after the \<open>[DONE]\<close> line is decoded
  and counted, and the events carry no marker for the sentinel.
\<close>

theorem done_sentinel_counterexample:
  \<open>stream_events ascii_dec () JSON_parse_sample
     [''data: [DONE]\<newline>\<newline>data: {"type":"response.output_text.delta","delta":"world"}\<newline>\<newline>'']
   = [delta_event ''world'']\<close>
  by code_simp

lemma process_line_from_init:
  "process_line parse l st =
     st\<lparr>eventCount := eventCount st + eventCount (process_line parse l reader_init),
        events := events st @ line_events parse l,
        parse_errors := parse_errors st @ line_errors parse l\<rparr>"
  by (simp add: process_line_def line_events_def line_errors_def reader_init_def Let_def
      split: option.splits)

lemma events_process_lines:
  "events (process_lines parse ls st) = events st @ concat (map (line_events parse) ls)"
proof (induction ls arbitrary: st)
  case Nil
  show ?case by (simp add: process_lines_def)
next
  case (Cons l ls)
  have "events (process_lines parse (l # ls) st)
        = events (process_lines parse ls (process_line parse l st))"
    by (simp add: process_lines_def)
  also have "\<dots> = events (process_line parse l st) @ concat (map (line_events parse) ls)"
    by (rule Cons)
  also have "events (process_line parse l st) = events st @ line_events parse l"
    by (subst process_line_from_init) simp
  finally show ?case by simp
qed

lemma parse_errors_process_lines:
  "parse_errors (process_lines parse ls st)
     = parse_errors st @ concat (map (line_errors parse) ls)"
proof (induction ls arbitrary: st)
  case Nil
  show ?case by (simp add: process_lines_def)
next
  case (Cons l ls)
  have "parse_errors (process_lines parse (l # ls) st)
        = parse_errors (process_lines parse ls (process_line parse l st))"
    by (simp add: process_lines_def)
  also have "\<dots> = parse_errors (process_line parse l st) @ concat (map (line_errors parse) ls)"
    by (rule Cons)
  also have "parse_errors (process_line parse l st) = parse_errors st @ line_errors parse l"
    by (subst process_line_from_init) simp
  finally show ?case by simp
qed

lemma line_events_decoded:
  "line_payload l = Some p \<Longrightarrow> parse p = Some e \<Longrightarrow> e \<noteq> JNull \<Longrightarrow> line_events parse l = [e]"
  by (simp add: line_events_def process_line_payload reader_init_def)

lemma line_events_malformed:
  "line_payload l = Some p \<Longrightarrow> parse p = None \<Longrightarrow>
   line_events parse l = [] \<and> line_errors parse l = [take 100 p]"
  by (simp add: line_events_def line_errors_def process_line_payload reader_init_def)

lemma stream_events_lines:
  assumes "streaming_decoder dec"
  shows "snd (read_loop dec parse chunks (d0, reader_init))
         = (process_lines parse
              (butlast (split_on newline (fst (dec d0 (concat chunks))))) reader_init)
             \<lparr>buffer := last (split_on newline (fst (dec d0 (concat chunks))))\<rparr>"
  using read_loop_concat [OF assms buffer_reader_init, of parse chunks d0]
  by (simp only: read_loop_single feed_text_eq) (simp add: reader_init_def)

text \<open>
  Claim C4. Take any stream, cut into chunks in any way, and write its complete lines as
  \<open>a @ l1 # b @ bad # c @ l2 # d\<close>: a line \<open>bad\<close> whose payload \<open>JSON.parse\<close> rejects stands
  somewhere between two lines \<open>l1\<close> and \<open>l2\<close> whose payloads decode to events, with any
  other lines (the blank lines of the wire format among them) before, between and after.
  The loop runs to the end of the stream: it logs the events of the lines before, then the
  event of \<open>l1\<close>, the events of the lines between, the event of \<open>l2\<close>, the events of the
  lines after, in this order, and no event for \<open>bad\<close>, for which it logs one parse error.
\<close>

theorem malformed_line_resilience:
  assumes dec: "streaming_decoder dec"
    and lines: "butlast (split_on newline (fst (dec d0 (concat chunks))))
                  = a @ l1 # b @ bad # c @ l2 # d"
    and l1: "line_payload l1 = Some p1" "parse p1 = Some e1" "e1 \<noteq> JNull"
    and malformed: "line_payload bad = Some pb" "parse pb = None"
    and l2: "line_payload l2 = Some p2" "parse p2 = Some e2" "e2 \<noteq> JNull"
  shows "stream_events dec d0 parse chunks =
           concat (map (line_events parse) a) @ [e1] @
           concat (map (line_events parse) b) @
           concat (map (line_events parse) c) @ [e2] @
           concat (map (line_events parse) d) \<and>
         line_events parse bad = [] \<and>
         take 100 pb \<in> set (parse_errors (snd (read_loop dec parse chunks (d0, reader_init))))"
proof -
  have m: "line_events parse bad = [] \<and> line_errors parse bad = [take 100 pb]"
    using line_events_malformed [of bad pb parse] malformed by simp
  have f1: "line_events parse l1 = [e1]"
    using line_events_decoded [of l1 p1 parse e1] l1 by simp
  have f2: "line_events parse l2 = [e2]"
    using line_events_decoded [of l2 p2 parse e2] l2 by simp
  have "stream_events dec d0 parse chunks
        = concat (map (line_events parse) (a @ l1 # b @ bad # c @ l2 # d))"
    unfolding stream_events_def stream_events_lines [OF dec] lines
    by (simp add: events_process_lines reader_init_def)
  moreover have "parse_errors (snd (read_loop dec parse chunks (d0, reader_init)))
        = concat (map (line_errors parse) (a @ l1 # b @ bad # c @ l2 # d))"
    unfolding stream_events_lines [OF dec] lines
    by (simp add: parse_errors_process_lines reader_init_def)
  ultimately show ?thesis
    using m f1 f2 by simp
qed

theorem malformed_line_resilience_witness:
  \<open>streaming_decoder ascii_dec \<and>
   butlast (split_on newline (fst (ascii_dec () (concat
     [''data: {"type":"response.output_text.delta","delta":"Hello"}\<newline>\<newline>data: {no'',
      ''t json\<newline>\<newline>data: {"type":"response.output_text.delta","delta":"world"}\<newline>\<newline>'']))))
     = [] @ ''data: {"type":"response.output_text.delta","delta":"Hello"}'' # [[]] @
       ''data: {not json'' # [[]] @
       ''data: {"type":"response.output_text.delta","delta":"world"}'' # [[]] \<and>
   line_payload ''data: {"type":"response.output_text.delta","delta":"Hello"}''
     = Some ''{"type":"response.output_text.delta","delta":"Hello"}'' \<and>
   JSON_parse_sample ''{"type":"response.output_text.delta","delta":"Hello"}''
     = Some (delta_event ''Hello'') \<and>
   delta_event ''Hello'' \<noteq> JNull \<and>
   line_payload ''data: {not json'' = Some ''{not json'' \<and>
   JSON_parse_sample ''{not json'' = None \<and>
   line_payload ''data: {"type":"response.output_text.delta","delta":"world"}''
     = Some ''{"type":"response.output_text.delta","delta":"world"}'' \<and>
   JSON_parse_sample ''{"type":"response.output_text.delta","delta":"world"}''
     = Some (delta_event ''world'') \<and>
   delta_event ''world'' \<noteq> JNull \<and>
   stream_events ascii_dec () JSON_parse_sample
     [''data: {"type":"response.output_text.delta","delta":"Hello"}\<newline>\<newline>data: {no'',
      ''t json\<newline>\<newline>data: {"type":"response.output_text.delta","delta":"world"}\<newline>\<newline>'']
     = [delta_event ''Hello'', delta_event ''world''] \<and>
   take 100 ''{not json'' \<in> set (parse_errors (snd (read_loop ascii_dec JSON_parse_sample
     [''data: {"type":"response.output_text.delta","delta":"Hello"}\<newline>\<newline>data: {no'',
      ''t json\<newline>\<newline>data: {"type":"response.output_text.delta","delta":"world"}\<newline>\<newline>'']
     ((), reader_init))))\<close>
proof -
  have h1: \<open>butlast (split_on newline (fst (ascii_dec () (concat
     [''data: {"type":"response.output_text.delta","delta":"Hello"}\<newline>\<newline>data: {no'',
      ''t json\<newline>\<newline>data: {"type":"response.output_text.delta","delta":"world"}\<newline>\<newline>'']))))
     = [] @ ''data: {"type":"response.output_text.delta","delta":"Hello"}'' # [[]] @
       ''data: {not json'' # [[]] @
       ''data: {"type":"response.output_text.delta","delta":"world"}'' # [[]]\<close>
    by code_simp
  have p1: \<open>line_payload ''data: {"type":"response.output_text.delta","delta":"Hello"}''
     = Some ''{"type":"response.output_text.delta","delta":"Hello"}''\<close>
    by code_simp
  have e1: \<open>JSON_parse_sample ''{"type":"response.output_text.delta","delta":"Hello"}''
     = Some (delta_event ''Hello'')\<close>
    by (simp add: JSON_parse_sample_def)
  have n1: "delta_event ''Hello'' \<noteq> JNull" by (simp add: delta_event_def)
  have p2: \<open>line_payload ''data: {not json'' = Some ''{not json''\<close>
    by code_simp
  have e2: \<open>JSON_parse_sample ''{not json'' = None\<close>
    by (simp add: JSON_parse_sample_def)
  have p3: \<open>line_payload ''data: {"type":"response.output_text.delta","delta":"world"}''
     = Some ''{"type":"response.output_text.delta","delta":"world"}''\<close>
    by code_simp
  have e3: \<open>JSON_parse_sample ''{"type":"response.output_text.delta","delta":"world"}''
     = Some (delta_event ''world'')\<close>
    by (simp add: JSON_parse_sample_def)
  have n3: "delta_event ''world'' \<noteq> JNull" by (simp add: delta_event_def)
  have blank: "line_events JSON_parse_sample [] = []"
    by (simp add: line_events_def process_line_def trim_def reader_init_def)
  note r = malformed_line_resilience [of ascii_dec "()" _ "[]" _ "[[]]" _ "[[]]" _ "[[]]"
      _ JSON_parse_sample, OF streaming_decoder_ascii h1 p1 e1 n1 p2 e2 p3 e3 n3]
  from r blank have v: \<open>stream_events ascii_dec () JSON_parse_sample
     [''data: {"type":"response.output_text.delta","delta":"Hello"}\<newline>\<newline>data: {no'',
      ''t json\<newline>\<newline>data: {"type":"response.output_text.delta","delta":"world"}\<newline>\<newline>'']
     = [delta_event ''Hello'', delta_event ''world'']\<close>
    by simp
  from streaming_decoder_ascii h1 p1 e1 n1 p2 e2 p3 e3 n3 v conjunct2 [OF conjunct2 [OF r]]
  show ?thesis by (intro conjI)
qed

text \<open>The payload \<open>null\<close> decodes, so it is not a malformed line in the sense of claim C4:
  the loop counts it as an event and then logs a parse error for it, because reading
  \<open>event.type\<close> throws.\<close>

lemma null_payload_counted_and_logged:
  "process_line JSON_parse_sample ''data: null'' reader_init
   = \<lparr>buffer = [], eventCount = 1, events = [], parse_errors = [''null'']\<rparr>"
  by code_simp

section \<open>Proofs: the relay\<close>

lemma invoke_stream_no_credentials:
  "get_credentials env headers = Inl e \<Longrightarrow>
   invoke_stream env endpoint endpoint_name messages client_request_id headers = ([], Some e)"
  by (simp add: invoke_stream_def)

lemma invoke_stream_nothing_before_id:
  "fst (invoke_stream env endpoint endpoint_name messages client_request_id headers) = [] \<or>
   (\<exists>rest. fst (invoke_stream env endpoint endpoint_name messages client_request_id headers)
      = client_request_id_frame client_request_id # rest)"
  by (simp add: invoke_stream_def Let_def split: sum.splits upstream.splits prod.splits)

lemma invoke_stream_with_credentials:
  "get_credentials env headers = Inr (host, token) \<Longrightarrow>
   invoke_stream env endpoint endpoint_name messages client_request_id headers =
     (client_request_id_frame client_request_id #
        map data_frame (upstream_lines (endpoint (upstream_request host token endpoint_name messages))),
      upstream_failure (endpoint (upstream_request host token endpoint_name messages)))"
  by (simp add: invoke_stream_def upstream_lines_def upstream_failure_def Let_def
      split: upstream.splits)

lemma dev_credentials:
  "get_credentials
     \<lparr>ENV = Some ''development'', DATABRICKS_HOST = Some ''adb-1.azuredatabricks.net'',
      DATABRICKS_TOKEN = Some ''dapi-token''\<rparr> Map.empty
   = Inr (''https://adb-1.azuredatabricks.net'', ''dapi-token'')"
  by (simp add: get_credentials_def get_databricks_host_def getenv_def startsWith_def
      is_local_development_def get_dev_token_def)

lemma sample_client_request_id_frame:
  \<open>client_request_id_frame ''req-abc123def456'' =
   ''data: {"type": "trace.client_request_id", "client_request_id": "req-abc123def456"}'' @ frame_end\<close>
  by (simp add: client_request_id_frame_def json_dumps_str_def json_escape_def backslash_def)

text \<open>With credentials, whatever the serving endpoint does with the call (it refuses the
  connection, it times out, it answers with any status, the body breaks off), the first
  string the generator yields is the \<open>trace.client_request_id\<close> frame with the identifier
  it was given, and every frame that forwards a line read from upstream comes after it.\<close>

lemma invoke_stream_id_first_with_credentials:
  assumes "get_credentials env headers = Inr (host, token)"
  shows "fst (invoke_stream env endpoint endpoint_name messages client_request_id headers) =
           client_request_id_frame client_request_id #
           map data_frame
             (upstream_lines (endpoint (upstream_request host token endpoint_name messages)))"
  using assms by (simp add: invoke_stream_def upstream_lines_def Let_def split: upstream.splits)

lemma invoke_stream_id_first_example:
  \<open>fst (invoke_stream
     \<lparr>ENV = Some ''development'', DATABRICKS_HOST = Some ''adb-1.azuredatabricks.net'',
      DATABRICKS_TOKEN = Some ''dapi-token''\<rparr>
     (\<lambda>request. Responds 200 [''{"type":"response.output_text.delta","delta":"Hi"}''] (Some ReadTimeout))
     (Some ''agent-endpoint'') [(''user'', ''Say hello'')] ''req-abc123def456'' Map.empty)
   = [''data: {"type": "trace.client_request_id", "client_request_id": "req-abc123def456"}'' @ frame_end,
      ''data: {"type":"response.output_text.delta","delta":"Hi"}'' @ frame_end]\<close>
  using invoke_stream_id_first_with_credentials [OF dev_credentials,
      of \<open>\<lambda>request. Responds 200 [''{"type":"response.output_text.delta","delta":"Hi"}''] (Some ReadTimeout)\<close>
         "Some ''agent-endpoint''" "[(''user'', ''Say hello'')]" "''req-abc123def456''"]
    sample_client_request_id_frame
  by (simp add: upstream_lines_def data_frame_def)


text \<open>
  Claim C5 as stated fails. When the connection to the serving endpoint fails, the only
  frame is the \<open>trace.client_request_id\<close> frame and the generator ends by raising the
  error; when the endpoint answers with status 500, the line of its body is forwarded as
  a \<open>data:\<close> frame like any other and the generator returns. The handler has no frame of
  its own for a failure.
\<close>

theorem upstream_failure_counterexample:
  \<open>invoke_stream
     \<lparr>ENV = Some ''development'', DATABRICKS_HOST = Some ''adb-1.azuredatabricks.net'',
      DATABRICKS_TOKEN = Some ''dapi-token''\<rparr>
     (\<lambda>request. ConnectFails ConnectError)
     (Some ''agent-endpoint'') [(''user'', ''Say hello'')] ''req-abc123def456'' Map.empty
   = ([''data: {"type": "trace.client_request_id", "client_request_id": "req-abc123def456"}'' @ frame_end],
      Some ConnectError) \<and>
   invoke_stream
     \<lparr>ENV = Some ''development'', DATABRICKS_HOST = Some ''adb-1.azuredatabricks.net'',
      DATABRICKS_TOKEN = Some ''dapi-token''\<rparr>
     (\<lambda>request. Responds 500 [''{"error_code": "INTERNAL_ERROR"}''] None)
     (Some ''agent-endpoint'') [(''user'', ''Say hello'')] ''req-abc123def456'' Map.empty
   = ([''data: {"type": "trace.client_request_id", "client_request_id": "req-abc123def456"}'' @ frame_end,
       ''data: {"error_code": "INTERNAL_ERROR"}'' @ frame_end],
      None)\<close>
  using dev_credentials sample_client_request_id_frame
  by (simp add: invoke_stream_with_credentials upstream_lines_def upstream_failure_def data_frame_def)

text \<open>
  Claim C5, as amended. For every failure of the upstream call, the handler yields the
  \<open>trace.client_request_id\<close> frame, then one \<open>data:\<close> frame for each line it has read
  from upstream, and nothing else: no error frame. When the connection fails or a read
  fails or times out, the generator ends by raising that error to the caller that
  iterates it. The status of the response is not looked at: the lines of the body of a
  non-success response are forwarded, and the generator returns at the end of the body.
\<close>

theorem upstream_failure_propagates:
  assumes "get_credentials env headers = Inr (host, token)"
    and "endpoint (upstream_request host token endpoint_name messages) = u"
  shows "invoke_stream env endpoint endpoint_name messages client_request_id headers =
           (client_request_id_frame client_request_id # map data_frame (upstream_lines u),
            upstream_failure u)"
  using assms by (simp add: invoke_stream_with_credentials)

theorem upstream_failure_propagates_witness:
  \<open>get_credentials
     \<lparr>ENV = Some ''development'', DATABRICKS_HOST = Some ''adb-1.azuredatabricks.net'',
      DATABRICKS_TOKEN = Some ''dapi-token''\<rparr> Map.empty
     = Inr (''https://adb-1.azuredatabricks.net'', ''dapi-token'') \<and>
   (\<lambda>request. Responds 200 [''{"type":"response.output_text.delta","delta":"Hi"}''] (Some ReadTimeout))
     (upstream_request ''https://adb-1.azuredatabricks.net'' ''dapi-token'' (Some ''agent-endpoint'')
        [(''user'', ''Say hello'')])
     = Responds 200 [''{"type":"response.output_text.delta","delta":"Hi"}''] (Some ReadTimeout) \<and>
   invoke_stream
     \<lparr>ENV = Some ''development'', DATABRICKS_HOST = Some ''adb-1.azuredatabricks.net'',
      DATABRICKS_TOKEN = Some ''dapi-token''\<rparr>
     (\<lambda>request. Responds 200 [''{"type":"response.output_text.delta","delta":"Hi"}''] (Some ReadTimeout))
     (Some ''agent-endpoint'') [(''user'', ''Say hello'')] ''req-abc123def456'' Map.empty
   = ([''data: {"type": "trace.client_request_id", "client_request_id": "req-abc123def456"}'' @ frame_end,
       ''data: {"type":"response.output_text.delta","delta":"Hi"}'' @ frame_end],
      Some ReadTimeout)\<close>
  using upstream_failure_propagates [OF dev_credentials,
      of \<open>\<lambda>request. Responds 200 [''{"type":"response.output_text.delta","delta":"Hi"}''] (Some ReadTimeout)\<close>
         "Some ''agent-endpoint''" "[(''user'', ''Say hello'')]"
         \<open>Responds 200 [''{"type":"response.output_text.delta","delta":"Hi"}''] (Some ReadTimeout)\<close>
         "''req-abc123def456''"]
    dev_credentials sample_client_request_id_frame
  by (simp add: upstream_lines_def upstream_failure_def data_frame_def)

section \<open>Proofs: navigation while a response streams\<close>

text \<open>
  Claim C6. While \<open>isStreaming\<close> is set, \<open>handleNewChat\<close> and \<open>handleChatSelect\<close> show a
  notice and return: the state of the provider is what it was, but for the notice added
  to the toasts. In particular \<open>currentChatId\<close>, the chat list, the streaming flag (all
  that the provider knows of the active stream) and the route are unchanged.
\<close>

theorem streaming_rejects_navigation:
  assumes "isStreaming nav"
  shows "handleNewChat node_env nav =
           nav\<lparr>toasts := toasts nav @
             [(''Please wait for the current response to complete'',
               ''You can start a new chat once the response finishes'')]\<rparr> \<and>
         handleChatSelect innerWidth chatId nav =
           nav\<lparr>toasts := toasts nav @
             [(''Please wait for the current response to complete'',
               ''You can switch chats once the response finishes'')]\<rparr> \<and>
         currentChatId (handleNewChat node_env nav) = currentChatId nav \<and>
         chats (handleNewChat node_env nav) = chats nav \<and>
         isStreaming (handleNewChat node_env nav) = isStreaming nav \<and>
         pushed (handleNewChat node_env nav) = pushed nav \<and>
         currentChatId (handleChatSelect innerWidth chatId nav) = currentChatId nav \<and>
         chats (handleChatSelect innerWidth chatId nav) = chats nav \<and>
         isStreaming (handleChatSelect innerWidth chatId nav) = isStreaming nav \<and>
         pushed (handleChatSelect innerWidth chatId nav) = pushed nav \<and>
         isSidebarOpen (handleChatSelect innerWidth chatId nav) = isSidebarOpen nav"
  using assms by (simp add: handleNewChat_def handleChatSelect_def)

theorem streaming_rejects_navigation_witness:
  "isStreaming
     \<lparr>currentChatId = Some ''chat-1'',
      chats = [\<lparr>chat_id = ''chat-1'', title = ''First'', lastMessage = ''hi'',
                timestamp = ''2025-01-01'', preview = ''hi...''\<rparr>],
      isStreaming = True, isSidebarOpen = True, isSidebarCollapsed = False,
      selectedAgentId = ''databricks-agent-01'', isEditMode = False,
      pushed = [''/chat''], toasts = [], console = []\<rparr> \<and>
   handleNewChat ''development''
     \<lparr>currentChatId = Some ''chat-1'',
      chats = [\<lparr>chat_id = ''chat-1'', title = ''First'', lastMessage = ''hi'',
                timestamp = ''2025-01-01'', preview = ''hi...''\<rparr>],
      isStreaming = True, isSidebarOpen = True, isSidebarCollapsed = False,
      selectedAgentId = ''databricks-agent-01'', isEditMode = False,
      pushed = [''/chat''], toasts = [], console = []\<rparr>
   = \<lparr>currentChatId = Some ''chat-1'',
      chats = [\<lparr>chat_id = ''chat-1'', title = ''First'', lastMessage = ''hi'',
                timestamp = ''2025-01-01'', preview = ''hi...''\<rparr>],
      isStreaming = True, isSidebarOpen = True, isSidebarCollapsed = False,
      selectedAgentId = ''databricks-agent-01'', isEditMode = False,
      pushed = [''/chat''],
      toasts = [(''Please wait for the current response to complete'',
                 ''You can start a new chat once the response finishes'')],
      console = []\<rparr> \<and>
   handleChatSelect 800 ''chat-2''
     \<lparr>currentChatId = Some ''chat-1'',
      chats = [\<lparr>chat_id = ''chat-1'', title = ''First'', lastMessage = ''hi'',
                timestamp = ''2025-01-01'', preview = ''hi...''\<rparr>],
      isStreaming = True, isSidebarOpen = True, isSidebarCollapsed = False,
      selectedAgentId = ''databricks-agent-01'', isEditMode = False,
      pushed = [''/chat''], toasts = [], console = []\<rparr>
   = \<lparr>currentChatId = Some ''chat-1'',
      chats = [\<lparr>chat_id = ''chat-1'', title = ''First'', lastMessage = ''hi'',
                timestamp = ''2025-01-01'', preview = ''hi...''\<rparr>],
      isStreaming = True, isSidebarOpen = True, isSidebarCollapsed = False,
      selectedAgentId = ''databricks-agent-01'', isEditMode = False,
      pushed = [''/chat''],
      toasts = [(''Please wait for the current response to complete'',
                 ''You can switch chats once the response finishes'')],
      console = []\<rparr>"
  using streaming_rejects_navigation [of
      "\<lparr>currentChatId = Some ''chat-1'',
      chats = [\<lparr>chat_id = ''chat-1'', title = ''First'', lastMessage = ''hi'',
                timestamp = ''2025-01-01'', preview = ''hi...''\<rparr>],
      isStreaming = True, isSidebarOpen = True, isSidebarCollapsed = False,
      selectedAgentId = ''databricks-agent-01'', isEditMode = False,
      pushed = [''/chat''], toasts = [], console = []\<rparr>" "''development''" 800 "''chat-2''"]
  by simp

section \<open>Proofs: the configuration cache\<close>

lemma loadConfig_finish_value:
  "loadConfig_finish fetched m = (load_value fetched, m\<lparr>cachedConfig := load_value fetched\<rparr>)"
  by (simp add: loadConfig_finish_def load_value_def split: fetch_result.splits option.splits)

lemma loadConfig_cached:
  "truthy (cachedConfig m) \<Longrightarrow> loadConfig fetched m = (cachedConfig m, m)"
  by (simp add: loadConfig_def loadConfig_begin_def)

lemma loadConfig_fetches:
  "\<not> truthy (cachedConfig m) \<Longrightarrow>
   loadConfig fetched m =
     (load_value fetched, m\<lparr>fetches := fetches m + 1, cachedConfig := load_value fetched\<rparr>)"
  by (simp add: loadConfig_def loadConfig_begin_def loadConfig_finish_value)

lemma loadConfig_caches: "cachedConfig (snd (loadConfig fetched m)) = fst (loadConfig fetched m)"
  by (cases "truthy (cachedConfig m)") (simp_all add: loadConfig_cached loadConfig_fetches)

lemma config_run_Nil [simp]: "config_run [] m = m"
  by (simp add: config_run_def)

lemma config_run_Cons [simp]:
  "config_run (call # calls) m = config_run calls (config_call_step call m)"
  by (simp add: config_run_def)

lemma config_run_cached:
  "truthy (cachedConfig m) \<Longrightarrow> list_all undisturbing calls \<Longrightarrow> config_run calls m = m"
proof (induction calls)
  case Nil
  show ?case by simp
next
  case (Cons call calls)
  then have "config_call_step call m = m"
    by (cases call) (simp_all add: loadConfig_cached loadConfig_begin_def)
  with Cons show ?case by simp
qed

lemma cached_after_run:
  "truthy (cachedConfig (config_run calls m)) = loaded_after (truthy (cachedConfig m)) calls"
proof (induction calls arbitrary: m)
  case Nil
  show ?case by simp
next
  case (Cons call calls)
  show ?case
  proof (cases call)
    case (Load fetched)
    with Cons [of "snd (loadConfig fetched m)"] show ?thesis
      by (cases "truthy (cachedConfig m)") (simp_all add: loadConfig_cached loadConfig_fetches)
  next
    case Begin
    with Cons [of "snd (loadConfig_begin m)"] show ?thesis
      by (simp add: loadConfig_begin_def)
  next
    case (Finish fetched)
    with Cons [of "snd (loadConfig_finish fetched m)"] show ?thesis
      by (simp add: loadConfig_finish_value)
  next
    case Get
    with Cons [of m] show ?thesis by simp
  next
    case Reset
    with Cons [of "resetConfig m"] show ?thesis by (simp add: resetConfig_def)
  qed
qed

text \<open>
  Claim C10 as stated fails, in two ways. With \<open>app_config.json\<close> holding \<open>null\<close>, the
  first \<open>loadConfig\<close> resolves (to \<open>null\<close>), nothing truthy is cached, \<open>getConfig\<close> throws
  although a \<open>loadConfig\<close> has completed, and the next \<open>loadConfig\<close> fetches again. And when
  two calls of \<open>loadConfig\<close> overlap, both fetch; the first resolves to the fetched
  configuration, the second (its fetch throws) then overwrites the cache with the default,
  and a later call returns the default, not the value that the first call resolved to.
\<close>

theorem loadConfig_counterexample:
  "loadConfig (FetchResponse True (Some JNull)) config_module_init
     = (JNull, \<lparr>cachedConfig = JNull, fetches = 1\<rparr>) \<and>
   getConfig \<lparr>cachedConfig = JNull, fetches = 1\<rparr>
     = Inl ''Config not loaded yet. Call loadConfig() first.'' \<and>
   loadConfig (FetchResponse True (Some JNull)) \<lparr>cachedConfig = JNull, fetches = 1\<rparr>
     = (JNull, \<lparr>cachedConfig = JNull, fetches = 2\<rparr>) \<and>
   config_run [Begin, Begin] config_module_init = \<lparr>cachedConfig = JNull, fetches = 2\<rparr> \<and>
   loadConfig_finish (FetchResponse True (Some (JObject [(''endpoints'', JArray [])])))
       \<lparr>cachedConfig = JNull, fetches = 2\<rparr>
     = (JObject [(''endpoints'', JArray [])],
        \<lparr>cachedConfig = JObject [(''endpoints'', JArray [])], fetches = 2\<rparr>) \<and>
   loadConfig_finish FetchThrows
       \<lparr>cachedConfig = JObject [(''endpoints'', JArray [])], fetches = 2\<rparr>
     = (DEFAULT_CONFIG, \<lparr>cachedConfig = DEFAULT_CONFIG, fetches = 2\<rparr>) \<and>
   loadConfig FetchThrows \<lparr>cachedConfig = DEFAULT_CONFIG, fetches = 2\<rparr>
     = (DEFAULT_CONFIG, \<lparr>cachedConfig = DEFAULT_CONFIG, fetches = 2\<rparr>) \<and>
   DEFAULT_CONFIG \<noteq> JObject [(''endpoints'', JArray [])]"
  by (simp add: loadConfig_def loadConfig_begin_def loadConfig_finish_def getConfig_def
      config_module_init_def DEFAULT_CONFIG_def)

text \<open>
  Claim C10, as amended. Once a \<open>loadConfig\<close> has resolved to a truthy value \<open>config\<close>
  (any JSON object, so any \<open>AppConfig\<close>; the default after a response that is not ok, a
  thrown fetch or an undecodable body), that value is cached: \<open>getConfig\<close> returns it, and
  every later \<open>loadConfig\<close> returns it and leaves the module as it is, the count of fetches
  included, for as long as there is no \<open>resetConfig\<close> and no \<open>loadConfig\<close> that was
  already waiting for its fetch finishes. And in every history of calls from the fresh
  module, \<open>getConfig\<close> returns the cached value exactly when the last \<open>loadConfig\<close> to
  assign the cache since the last \<open>resetConfig\<close> resolved to a truthy value; otherwise it
  throws.
\<close>

theorem loadConfig_memoized:
  assumes "loadConfig fetched m = (config, m')" and "truthy config"
    and "list_all undisturbing calls"
  shows "loadConfig fetched' m' = (config, m') \<and>
         getConfig m' = Inr config \<and>
         config_run calls m' = m' \<and>
         loadConfig fetched' (config_run calls m') = (config, m') \<and>
         getConfig (config_run history config_module_init)
           = (if loaded_after False history
              then Inr (cachedConfig (config_run history config_module_init))
              else Inl ''Config not loaded yet. Call loadConfig() first.'')"
proof -
  from assms(1) loadConfig_caches [of fetched m] have c: "cachedConfig m' = config" by simp
  with assms(2) have t: "truthy (cachedConfig m')" by simp
  have r: "config_run calls m' = m'" using t assms(3) by (rule config_run_cached)
  have h: "truthy (cachedConfig (config_run history config_module_init)) = loaded_after False history"
    using cached_after_run [of history config_module_init] by (simp add: config_module_init_def)
  show ?thesis
    using c t r h by (simp add: loadConfig_cached getConfig_def)
qed

theorem loadConfig_memoized_witness:
  "loadConfig (FetchResponse False None) config_module_init
     = (DEFAULT_CONFIG, \<lparr>cachedConfig = DEFAULT_CONFIG, fetches = 1\<rparr>) \<and>
   truthy DEFAULT_CONFIG \<and>
   list_all undisturbing
     [Load FetchThrows, Get, Begin, Load (FetchResponse True (Some (JObject [(''endpoints'', JArray [])])))] \<and>
   loadConfig (FetchResponse True (Some (JObject [(''endpoints'', JArray [])])))
     \<lparr>cachedConfig = DEFAULT_CONFIG, fetches = 1\<rparr>
     = (DEFAULT_CONFIG, \<lparr>cachedConfig = DEFAULT_CONFIG, fetches = 1\<rparr>) \<and>
   getConfig \<lparr>cachedConfig = DEFAULT_CONFIG, fetches = 1\<rparr> = Inr DEFAULT_CONFIG \<and>
   config_run
     [Load FetchThrows, Get, Begin, Load (FetchResponse True (Some (JObject [(''endpoints'', JArray [])])))]
     \<lparr>cachedConfig = DEFAULT_CONFIG, fetches = 1\<rparr>
     = \<lparr>cachedConfig = DEFAULT_CONFIG, fetches = 1\<rparr> \<and>
   getConfig (config_run [Load FetchThrows, Reset] config_module_init)
     = Inl ''Config not loaded yet. Call loadConfig() first.'' \<and>
   getConfig (config_run [Load (FetchResponse True (Some JNull))] config_module_init)
     = Inl ''Config not loaded yet. Call loadConfig() first.'' \<and>
   getConfig (config_run [Reset, Load (FetchResponse True (Some (JObject [(''endpoints'', JArray [])])))]
       config_module_init)
     = Inr (JObject [(''endpoints'', JArray [])])"
proof -
  have l: "loadConfig (FetchResponse False None) config_module_init
     = (DEFAULT_CONFIG, \<lparr>cachedConfig = DEFAULT_CONFIG, fetches = 1\<rparr>)"
    by (simp add: loadConfig_def loadConfig_begin_def loadConfig_finish_def config_module_init_def)
  have t: "truthy DEFAULT_CONFIG" by (simp add: DEFAULT_CONFIG_def)
  have u: "list_all undisturbing
     [Load FetchThrows, Get, Begin, Load (FetchResponse True (Some (JObject [(''endpoints'', JArray [])])))]"
    by simp
  have n1: "\<not> loaded_after False [Load FetchThrows, Reset]" by simp
  have n2: "\<not> loaded_after False [Load (FetchResponse True (Some JNull))]"
    by (simp add: load_value_def loadConfig_finish_def)
  have n3: "loaded_after False
      [Reset, Load (FetchResponse True (Some (JObject [(''endpoints'', JArray [])])))]"
    by (simp add: load_value_def loadConfig_finish_def)
  have v3: "cachedConfig (config_run
      [Reset, Load (FetchResponse True (Some (JObject [(''endpoints'', JArray [])])))]
       config_module_init) = JObject [(''endpoints'', JArray [])]"
    by (simp add: loadConfig_def loadConfig_begin_def loadConfig_finish_def config_module_init_def
        resetConfig_def)
  note a = loadConfig_memoized [OF l t u,
      where fetched' = "FetchResponse True (Some (JObject [(''endpoints'', JArray [])]))"
        and history = "[Load FetchThrows, Reset]"]
  note b = loadConfig_memoized [OF l t u,
      where history = "[Load (FetchResponse True (Some JNull))]"]
  note c = loadConfig_memoized [OF l t u,
      where history = "[Reset, Load (FetchResponse True (Some (JObject [(''endpoints'', JArray [])])))]"]
  from a n1 have g1: "getConfig (config_run [Load FetchThrows, Reset] config_module_init)
     = Inl ''Config not loaded yet. Call loadConfig() first.''" by simp
  from b n2 have g2: "getConfig (config_run [Load (FetchResponse True (Some JNull))] config_module_init)
     = Inl ''Config not loaded yet. Call loadConfig() first.''" by simp
  from c n3 v3 have g3: "getConfig (config_run
      [Reset, Load (FetchResponse True (Some (JObject [(''endpoints'', JArray [])])))]
       config_module_init) = Inr (JObject [(''endpoints'', JArray [])])" by simp
  from l t u a g1 g2 g3 show ?thesis by simp
qed

section \<open>Proofs: the event-folding state machine\<close>

lemma fold_inputs_Nil [simp]: "fold_inputs [] st = st"
  by (simp add: fold_inputs_def)

lemma fold_inputs_Cons [simp]: "fold_inputs (inp # inps) st = fold_inputs inps (fold_step inp st)"
  by (simp add: fold_inputs_def)

lemma fold_inputs_append: "fold_inputs (xs @ ys) st = fold_inputs ys (fold_inputs xs st)"
  by (simp add: fold_inputs_def)

lemma fold_step_delta:
  "status st = Streaming \<Longrightarrow>
   fold_step (Frame (TextDelta text)) st =
     st\<lparr>message := (message st)\<lparr>textContent := textContent (message st) @ text\<rparr>\<rparr>"
  by (simp add: fold_step_def)

lemma fold_deltas:
  "status st = Streaming \<Longrightarrow>
   fold_inputs (map (\<lambda>text. Frame (TextDelta text)) deltas) st =
     st\<lparr>message := (message st)\<lparr>textContent := textContent (message st) @ concat deltas\<rparr>\<rparr>"
proof (induction deltas arbitrary: st)
  case Nil
  show ?case by simp
next
  case (Cons fragment deltas)
  let ?st = "st\<lparr>message := (message st)\<lparr>textContent := textContent (message st) @ fragment\<rparr>\<rparr>"
  have "status ?st = Streaming" using Cons.prems by simp
  from Cons.IH [OF this] Cons.prems show ?case by (simp add: fold_step_delta)
qed

lemma fold_frame_text_grows:
  "\<exists>suffix. textContent (fold_frame f m) = textContent m @ suffix"
  by (cases f) (auto split: option.splits)

lemma fold_step_text_grows:
  "\<exists>suffix. textContent (message (fold_step inp st)) = textContent (message st) @ suffix"
proof (cases "status st = Streaming \<and> (\<exists>f. inp = Frame f \<and> \<not> terminal_frame f)")
  case True
  then obtain f where "inp = Frame f" "\<not> terminal_frame f" "status st = Streaming" by blast
  then show ?thesis using fold_frame_text_grows [of f "message st"] by (simp add: fold_step_def)
next
  case False
  then have "message (fold_step inp st) = message st"
    by (cases "status st"; cases inp) (auto simp add: fold_step_def split: StreamFrame.splits)
  then show ?thesis by simp
qed

lemma fold_inputs_text_grows:
  "\<exists>suffix. textContent (message (fold_inputs inps st)) = textContent (message st) @ suffix"
proof (induction inps arbitrary: st)
  case Nil
  show ?case by simp
next
  case (Cons inp inps)
  from fold_step_text_grows [of inp st] obtain s1
    where s1: "textContent (message (fold_step inp st)) = textContent (message st) @ s1" ..
  from Cons [of "fold_step inp st"] obtain s2
    where s2: "textContent (message (fold_inputs inps (fold_step inp st)))
               = textContent (message (fold_step inp st)) @ s2" ..
  from s1 s2 show ?case by simp
qed

lemma streaming_after_id:
  "fold_inputs [FirstByte, Frame (ClientRequestId r)] stream_init =
     \<lparr>status = Streaming, requestId = Some r,
      message = \<lparr>textContent = [], toolCalls = [], traceMetadata = None\<rparr>\<rparr>"
  by (simp add: fold_step_def stream_init_def)

text \<open>
  Claim C7, on the state machine modelled from the specification. In the state Streaming, folding a sequence of text-delta
  frames appends the concatenation of their fragments, in arrival order, to
  \<open>textContent\<close>. And whatever the inputs and the state, the text before the fold is a
  prefix of the text after it: nothing already appended is removed or reordered.
\<close>

theorem text_accumulation:
  assumes "status st = Streaming"
  shows "textContent (message (fold_inputs (map (\<lambda>text. Frame (TextDelta text)) deltas) st))
           = textContent (message st) @ concat deltas \<and>
         status (fold_inputs (map (\<lambda>text. Frame (TextDelta text)) deltas) st) = Streaming \<and>
         (\<exists>suffix. textContent (message (fold_inputs inps st')) = textContent (message st') @ suffix)"
  using assms fold_inputs_text_grows [of inps st'] by (simp add: fold_deltas)

theorem text_accumulation_witness:
  "status (fold_inputs [FirstByte, Frame (ClientRequestId ''req-abc123def456'')] stream_init) = Streaming \<and>
   textContent (message (fold_inputs
       (map (\<lambda>text. Frame (TextDelta text)) [''Hello'', '', '', ''world''])
       (fold_inputs [FirstByte, Frame (ClientRequestId ''req-abc123def456'')] stream_init)))
     = ''Hello, world''"
proof -
  have s: "status (fold_inputs [FirstByte, Frame (ClientRequestId ''req-abc123def456'')] stream_init) = Streaming"
    by (simp add: fold_step_def stream_init_def)
  from text_accumulation [OF s, of "[''Hello'', '', '', ''world'']"] s
  show ?thesis by (simp add: fold_step_def stream_init_def)
qed

subsection \<open>Tool calls\<close>

lemma filter_map_same_id:
  assumes "\<And>r. callId (g r) = callId r"
  shows "filter (\<lambda>r. callId r = cid) (map (\<lambda>r. if callId r = cid then g r else r) tcs)
         = map g (filter (\<lambda>r. callId r = cid) tcs)"
  using assms by (induction tcs) auto

lemma filter_map_other_id:
  assumes "c \<noteq> cid" and "\<And>r. callId (g r) = callId r"
  shows "filter (\<lambda>r. callId r = cid) (map (\<lambda>r. if callId r = c then g r else r) tcs)
         = filter (\<lambda>r. callId r = cid) tcs"
  using assms by (induction tcs) auto

lemma filter_fresh_id: "cid \<notin> set (map callId tcs) \<Longrightarrow> filter (\<lambda>r. callId r = cid) tcs = []"
  by (induction tcs) auto

lemma upsert_call_other:
  "c \<noteq> cid \<Longrightarrow>
   filter (\<lambda>r. callId r = cid) (upsert_call c nm args tcs) = filter (\<lambda>r. callId r = cid) tcs"
  by (simp add: upsert_call_def filter_map_other_id)

lemma attach_output_other:
  "c \<noteq> cid \<Longrightarrow>
   filter (\<lambda>r. callId r = cid) (attach_output c out tcs) = filter (\<lambda>r. callId r = cid) tcs"
  by (simp add: attach_output_def filter_map_other_id)

lemma fold_frame_other:
  "unrelated_input cid (Frame f) \<Longrightarrow>
   filter (\<lambda>r. callId r = cid) (toolCalls (fold_frame f m)) = filter (\<lambda>r. callId r = cid) (toolCalls m)"
  by (cases f) (auto simp add: upsert_call_other attach_output_other split: option.splits)

lemma unrelated_step:
  assumes "unrelated_input cid inp" and "status st = Streaming"
  shows "status (fold_step inp st) = Streaming \<and>
         filter (\<lambda>r. callId r = cid) (toolCalls (message (fold_step inp st)))
           = filter (\<lambda>r. callId r = cid) (toolCalls (message st))"
proof (cases inp)
  case (Frame f)
  with assms have nt: "\<not> terminal_frame f" by (cases f) auto
  from Frame assms nt fold_frame_other [of cid f "message st"] show ?thesis
    by (simp add: fold_step_def)
qed (use assms in \<open>simp_all add: fold_step_def\<close>)

lemma unrelated_inputs:
  assumes "\<forall>inp \<in> set inps. unrelated_input cid inp" and "status st = Streaming"
  shows "status (fold_inputs inps st) = Streaming \<and>
         filter (\<lambda>r. callId r = cid) (toolCalls (message (fold_inputs inps st)))
           = filter (\<lambda>r. callId r = cid) (toolCalls (message st))"
  using assms
proof (induction inps arbitrary: st)
  case Nil
  then show ?case by simp
next
  case (Cons inp inps)
  from Cons.prems have u: "unrelated_input cid inp" by simp
  note s = unrelated_step [OF u Cons.prems(2)]
  from Cons.prems have "\<forall>i \<in> set inps. unrelated_input cid i" by simp
  from Cons.IH [OF this conjunct1 [OF s]] s show ?case by simp
qed

lemma call_step:
  assumes "status st = Streaming" and "cid \<notin> set (map callId (toolCalls (message st)))"
  shows "status (fold_step (Frame (FunctionCall cid nm args)) st) = Streaming \<and>
         filter (\<lambda>r. callId r = cid)
           (toolCalls (message (fold_step (Frame (FunctionCall cid nm args)) st)))
         = [\<lparr>callId = cid, toolName = nm, arguments = args, callOutput = None\<rparr>]"
  using assms filter_fresh_id [OF assms(2)] by (simp add: fold_step_def upsert_call_def)

lemma output_step_known:
  assumes "status st = Streaming"
    and "filter (\<lambda>r. callId r = cid) (toolCalls (message st)) = [rec]"
  shows "filter (\<lambda>r. callId r = cid)
           (toolCalls (message (fold_step (Frame (FunctionCallOutput cid out)) st)))
         = [rec\<lparr>callOutput := Some out\<rparr>]"
proof -
  have "rec \<in> set (filter (\<lambda>r. callId r = cid) (toolCalls (message st)))"
    using assms(2) by simp
  then have "cid \<in> set (map callId (toolCalls (message st)))" by auto
  then show ?thesis
    using assms filter_map_same_id [of "\<lambda>r. r\<lparr>callOutput := Some out\<rparr>" cid "toolCalls (message st)"]
    by (simp add: fold_step_def attach_output_def)
qed

text \<open>
  Claim C8, on the state machine modelled from the specification. In the state Streaming, with no record for \<open>cid\<close> yet: a call
  frame for \<open>cid\<close>, then any inputs that neither end the stream nor carry \<open>cid\<close>, then an
  output frame for \<open>cid\<close> leave exactly one record for \<open>cid\<close>, which has the arguments of the
  call and the output. An output frame for an identifier with no record appends a record
  with empty name and arguments and that output; the stream stays in the state Streaming.
\<close>

theorem tool_call_merge:
  assumes "status st = Streaming"
    and "cid \<notin> set (map callId (toolCalls (message st)))"
    and "\<forall>inp \<in> set between. unrelated_input cid inp"
  shows "filter (\<lambda>r. callId r = cid)
           (toolCalls (message (fold_inputs
              (Frame (FunctionCall cid nm args) # between @ [Frame (FunctionCallOutput cid out)]) st)))
           = [\<lparr>callId = cid, toolName = nm, arguments = args, callOutput = Some out\<rparr>] \<and>
         fold_step (Frame (FunctionCallOutput cid out)) st =
           st\<lparr>message := (message st)\<lparr>toolCalls := toolCalls (message st) @
                 [\<lparr>callId = cid, toolName = [], arguments = [], callOutput = Some out\<rparr>]\<rparr>\<rparr> \<and>
         status (fold_step (Frame (FunctionCallOutput cid out)) st) = Streaming"
proof -
  let ?s1 = "fold_step (Frame (FunctionCall cid nm args)) st"
  note c = call_step [OF assms(1,2), of nm args]
  note b = unrelated_inputs [OF assms(3) conjunct1 [OF c]]
  from b c have f: "filter (\<lambda>r. callId r = cid) (toolCalls (message (fold_inputs between ?s1)))
      = [\<lparr>callId = cid, toolName = nm, arguments = args, callOutput = None\<rparr>]" by simp
  from output_step_known [OF conjunct1 [OF b] f, of out]
  have "filter (\<lambda>r. callId r = cid)
           (toolCalls (message (fold_inputs
              (Frame (FunctionCall cid nm args) # between @ [Frame (FunctionCallOutput cid out)]) st)))
           = [\<lparr>callId = cid, toolName = nm, arguments = args, callOutput = Some out\<rparr>]"
    by (simp add: fold_inputs_append)
  moreover from assms(1,2)
  have "fold_step (Frame (FunctionCallOutput cid out)) st =
           st\<lparr>message := (message st)\<lparr>toolCalls := toolCalls (message st) @
                 [\<lparr>callId = cid, toolName = [], arguments = [], callOutput = Some out\<rparr>]\<rparr>\<rparr>"
    by (simp add: fold_step_def attach_output_def)
  ultimately show ?thesis using assms(1) by simp
qed

theorem tool_call_merge_witness:
  \<open>status (fold_inputs [FirstByte, Frame (ClientRequestId ''req-abc123def456'')] stream_init) = Streaming \<and>
   ''c1'' \<notin> set (map callId (toolCalls (message
      (fold_inputs [FirstByte, Frame (ClientRequestId ''req-abc123def456'')] stream_init)))) \<and>
   list_all (unrelated_input ''c1'')
     [Frame (TextDelta ''Looking up''), Frame (FunctionCall ''c2'' ''list_catalogs'' ''{}'')] \<and>
   toolCalls (message (fold_inputs
     (Frame (FunctionCall ''c1'' ''get_table_schema'' ''{"table":"t"}'') #
      [Frame (TextDelta ''Looking up''), Frame (FunctionCall ''c2'' ''list_catalogs'' ''{}'')] @
      [Frame (FunctionCallOutput ''c1'' ''Schema for t'')])
     (fold_inputs [FirstByte, Frame (ClientRequestId ''req-abc123def456'')] stream_init)))
   = [\<lparr>callId = ''c1'', toolName = ''get_table_schema'', arguments = ''{"table":"t"}'',
       callOutput = Some ''Schema for t''\<rparr>,
      \<lparr>callId = ''c2'', toolName = ''list_catalogs'', arguments = ''{}'', callOutput = None\<rparr>] \<and>
   filter (\<lambda>r. callId r = ''c1'') (toolCalls (message (fold_inputs
     (Frame (FunctionCall ''c1'' ''get_table_schema'' ''{"table":"t"}'') #
      [Frame (TextDelta ''Looking up''), Frame (FunctionCall ''c2'' ''list_catalogs'' ''{}'')] @
      [Frame (FunctionCallOutput ''c1'' ''Schema for t'')])
     (fold_inputs [FirstByte, Frame (ClientRequestId ''req-abc123def456'')] stream_init))))
   = [\<lparr>callId = ''c1'', toolName = ''get_table_schema'', arguments = ''{"table":"t"}'',
       callOutput = Some ''Schema for t''\<rparr>] \<and>
   toolCalls (message (fold_step (Frame (FunctionCallOutput ''c1'' ''orphan''))
     (fold_inputs [FirstByte, Frame (ClientRequestId ''req-abc123def456'')] stream_init)))
   = [\<lparr>callId = ''c1'', toolName = [], arguments = [], callOutput = Some ''orphan''\<rparr>]\<close>
proof -
  let ?st = "fold_inputs [FirstByte, Frame (ClientRequestId ''req-abc123def456'')] stream_init"
  have s: "status ?st = Streaming" by (simp add: fold_step_def stream_init_def)
  have n: "''c1'' \<notin> set (map callId (toolCalls (message ?st)))" by (simp add: fold_step_def stream_init_def)
  have u: \<open>\<forall>inp \<in> set [Frame (TextDelta ''Looking up''), Frame (FunctionCall ''c2'' ''list_catalogs'' ''{}'')].
             unrelated_input ''c1'' inp\<close> by simp
  have l: \<open>list_all (unrelated_input ''c1'')
     [Frame (TextDelta ''Looking up''), Frame (FunctionCall ''c2'' ''list_catalogs'' ''{}'')]\<close> by simp
  have v: \<open>toolCalls (message (fold_inputs
     (Frame (FunctionCall ''c1'' ''get_table_schema'' ''{"table":"t"}'') #
      [Frame (TextDelta ''Looking up''), Frame (FunctionCall ''c2'' ''list_catalogs'' ''{}'')] @
      [Frame (FunctionCallOutput ''c1'' ''Schema for t'')]) ?st))
   = [\<lparr>callId = ''c1'', toolName = ''get_table_schema'', arguments = ''{"table":"t"}'',
       callOutput = Some ''Schema for t''\<rparr>,
      \<lparr>callId = ''c2'', toolName = ''list_catalogs'', arguments = ''{}'', callOutput = None\<rparr>]\<close>
    by (simp add: fold_step_def stream_init_def upsert_call_def attach_output_def)
  note t = tool_call_merge [OF s n u, where nm = "''get_table_schema''"
      and args = \<open>''{"table":"t"}''\<close> and out = "''Schema for t''"]
  note t2 = tool_call_merge [OF s n u, where nm = "''get_table_schema''"
      and args = \<open>''{"table":"t"}''\<close> and out = "''orphan''"]
  have o: "toolCalls (message (fold_step (Frame (FunctionCallOutput ''c1'' ''orphan'')) ?st))
   = [\<lparr>callId = ''c1'', toolName = [], arguments = [], callOutput = Some ''orphan''\<rparr>]"
    using conjunct1 [OF conjunct2 [OF t2]] by (simp add: fold_step_def stream_init_def)
  from s n l v conjunct1 [OF t] o show ?thesis by (intro conjI)
qed

subsection \<open>Terminal states\<close>

lemma terminal_step:
  "status st = Completed \<or> status st = Aborted \<Longrightarrow> fold_step inp st = st"
  by (auto simp add: fold_step_def)

lemma terminal_inputs:
  "status st = Completed \<or> status st = Aborted \<Longrightarrow> fold_inputs inps st = st"
  by (induction inps) (simp_all add: terminal_step)

text \<open>
  Claim C9, on the state machine modelled from the specification. In a terminal state every further input leaves the whole
  state, the message included, as it is. A terminal frame, the end of the stream, a
  cancellation and a read error change the status only: the message accumulated so far
  is kept. So after some deltas, a cancellation and anything that arrives later,
  \<open>textContent\<close> is what it was at the cancellation, and the status is Aborted.
\<close>

theorem terminal_state_is_final:
  shows "(status st = Completed \<or> status st = Aborted \<longrightarrow> fold_inputs inps st = st) \<and>
         (status st = Streaming \<longrightarrow>
            fold_step Cancel st = st\<lparr>status := Aborted\<rparr> \<and>
            fold_step ReadFailure st = st\<lparr>status := Aborted\<rparr> \<and>
            fold_step StreamEnd st = st\<lparr>status := Completed\<rparr> \<and>
            fold_step (Frame DoneSentinel) st = st\<lparr>status := Completed\<rparr> \<and>
            fold_step (Frame ResponseCompleted) st = st\<lparr>status := Completed\<rparr> \<and>
            fold_inputs (map (\<lambda>text. Frame (TextDelta text)) deltas @ Cancel # later) st
              = st\<lparr>status := Aborted,
                   message := (message st)\<lparr>textContent := textContent (message st) @ concat deltas\<rparr>\<rparr>)"
proof (intro conjI impI)
  assume "status st = Completed \<or> status st = Aborted"
  then show "fold_inputs inps st = st" by (rule terminal_inputs)
next
  assume s: "status st = Streaming"
  let ?st = "st\<lparr>message := (message st)\<lparr>textContent := textContent (message st) @ concat deltas\<rparr>\<rparr>"
  have "fold_inputs (map (\<lambda>text. Frame (TextDelta text)) deltas @ Cancel # later) st
        = fold_inputs later (fold_step Cancel ?st)"
    using s by (simp add: fold_inputs_append fold_deltas)
  also have "fold_step Cancel ?st = ?st\<lparr>status := Aborted\<rparr>"
    using s by (simp add: fold_step_def)
  also have "fold_inputs later (?st\<lparr>status := Aborted\<rparr>) = ?st\<lparr>status := Aborted\<rparr>"
    by (rule terminal_inputs) simp
  finally show "fold_inputs (map (\<lambda>text. Frame (TextDelta text)) deltas @ Cancel # later) st
              = st\<lparr>status := Aborted,
                   message := (message st)\<lparr>textContent := textContent (message st) @ concat deltas\<rparr>\<rparr>"
    by simp
qed (simp_all add: fold_step_def)

theorem terminal_state_is_final_witness:
  "status (fold_inputs [FirstByte, Frame (ClientRequestId ''req-abc123def456'')] stream_init) = Streaming \<and>
   fold_inputs
     (map (\<lambda>text. Frame (TextDelta text)) [''one '', ''two ''] @ Cancel #
        [Frame (TextDelta ''three ''), Frame (TextDelta ''four ''), Frame (TextDelta ''five'')])
     (fold_inputs [FirstByte, Frame (ClientRequestId ''req-abc123def456'')] stream_init)
   = \<lparr>status = Aborted, requestId = Some ''req-abc123def456'',
      message = \<lparr>textContent = ''one two '', toolCalls = [], traceMetadata = None\<rparr>\<rparr> \<and>
   status \<lparr>status = Completed, requestId = Some ''req-abc123def456'',
      message = \<lparr>textContent = ''done'', toolCalls = [], traceMetadata = None\<rparr>\<rparr> = Completed \<and>
   fold_inputs [Frame (TextDelta ''late''), Frame (FunctionCall ''c1'' ''f'' ''{}''), Cancel, StreamEnd]
     \<lparr>status = Completed, requestId = Some ''req-abc123def456'',
      message = \<lparr>textContent = ''done'', toolCalls = [], traceMetadata = None\<rparr>\<rparr>
   = \<lparr>status = Completed, requestId = Some ''req-abc123def456'',
      message = \<lparr>textContent = ''done'', toolCalls = [], traceMetadata = None\<rparr>\<rparr>"
proof -
  let ?st = "fold_inputs [FirstByte, Frame (ClientRequestId ''req-abc123def456'')] stream_init"
  let ?done = "\<lparr>status = Completed, requestId = Some ''req-abc123def456'',
      message = \<lparr>textContent = ''done'', toolCalls = [], traceMetadata = None\<rparr>\<rparr>"
  have s: "status ?st = Streaming" by (simp add: fold_step_def stream_init_def)
  have d: "status ?done = Completed" by simp
  note a = terminal_state_is_final [where st = ?st and deltas = "[''one '', ''two '']"
      and later = "[Frame (TextDelta ''three ''), Frame (TextDelta ''four ''), Frame (TextDelta ''five'')]"]
  note b = terminal_state_is_final [where st = ?done
      and inps = "[Frame (TextDelta ''late''), Frame (FunctionCall ''c1'' ''f'' ''{}''), Cancel, StreamEnd]"]
  from a s have "fold_inputs
     (map (\<lambda>text. Frame (TextDelta text)) [''one '', ''two ''] @ Cancel #
        [Frame (TextDelta ''three ''), Frame (TextDelta ''four ''), Frame (TextDelta ''five'')]) ?st
     = ?st\<lparr>status := Aborted,
           message := (message ?st)\<lparr>textContent := textContent (message ?st) @ concat [''one '', ''two '']\<rparr>\<rparr>"
    by blast
  then have c: "fold_inputs
     (map (\<lambda>text. Frame (TextDelta text)) [''one '', ''two ''] @ Cancel #
        [Frame (TextDelta ''three ''), Frame (TextDelta ''four ''), Frame (TextDelta ''five'')]) ?st
     = \<lparr>status = Aborted, requestId = Some ''req-abc123def456'',
      message = \<lparr>textContent = ''one two '', toolCalls = [], traceMetadata = None\<rparr>\<rparr>"
    by (simp add: fold_step_def stream_init_def)
  from b d have e: "fold_inputs
      [Frame (TextDelta ''late''), Frame (FunctionCall ''c1'' ''f'' ''{}''), Cancel, StreamEnd] ?done = ?done"
    by blast
  from s c d e show ?thesis by (intro conjI)
qed

end
